theory Spec2Isabelle
  imports Main
begin

text \<open>
  NotesVault keeps its users and the current session in browser-local storage. This
  theory embeds the authentication service (\<open>scripts/auth.js\<close>) and the upload
  handler (\<open>scripts/upload.js\<close>) as functions on that storage and proves what
  they do to it.
\<close>

section \<open>Strings\<close>

text \<open>
  A JavaScript string is modelled as a \<^typ>\<open>string\<close> whose characters are the code
  units \<open>0\<close> to \<open>255\<close> (the Latin-1 range); \<open>length\<close> is the source's \<open>.length\<close>.
  Within that range the white space of \<open>trim()\<close> and of the regular expression class
  \<open>\s\<close> is TAB, LF, VT, FF, CR, SPACE and NBSP, the line terminators (which the
  regular expression \<open>.\<close> does not match) are LF and CR, and \<open>toLowerCase()\<close> shifts
  \<open>A\<close>-\<open>Z\<close> and the accented capitals \<open>0xC0\<close>-\<open>0xDE\<close> (without \<open>0xD7\<close>) by 32.
\<close>

definition code :: "char \<Rightarrow> nat" where
  "code c = of_char c"

definition isWhiteSpace :: "char \<Rightarrow> bool" where
  "isWhiteSpace c = (code c \<in> {9, 10, 11, 12, 13, 32, 160})"

definition isLineTerminator :: "char \<Rightarrow> bool" where
  "isLineTerminator c = (code c = 10 \<or> code c = 13)"

definition isLower :: "char \<Rightarrow> bool" where
  "isLower c = (97 \<le> code c \<and> code c \<le> 122)"

definition isUpper :: "char \<Rightarrow> bool" where
  "isUpper c = (65 \<le> code c \<and> code c \<le> 90)"

definition isDigit :: "char \<Rightarrow> bool" where
  "isDigit c = (48 \<le> code c \<and> code c \<le> 57)"

definition hasLowerCaseMapping :: "char \<Rightarrow> bool" where
  "hasLowerCaseMapping c =
     (isUpper c \<or> (192 \<le> code c \<and> code c \<le> 214) \<or> (216 \<le> code c \<and> code c \<le> 222))"

definition toLowerChar :: "char \<Rightarrow> char" where
  "toLowerChar c = (if hasLowerCaseMapping c then char_of (code c + 32) else c)"

definition toLowerCase :: "string \<Rightarrow> string" where
  "toLowerCase s = map toLowerChar s"

definition trim :: "string \<Rightarrow> string" where
  "trim s = rev (dropWhile isWhiteSpace (rev (dropWhile isWhiteSpace s)))"

text \<open>\<open>sanitizeInput\<close>: \<open>input.trim().replace(/[<>'"]/g, "")\<close>.\<close>

definition isMarkupChar :: "char \<Rightarrow> bool" where
  "isMarkupChar c = (c \<in> {CHR 0x3C, CHR 0x3E, CHR 0x27, CHR 0x22})"

definition sanitizeInput :: "string \<Rightarrow> string" where
  "sanitizeInput input = filter (\<lambda>c. \<not> isMarkupChar c) (trim input)"

text \<open>
  \<open>validateEmail\<close>: the anchored pattern \<open>^[^\s@]+@[^\s@]+\.[^\s@]+$\<close>. The first
  run of non-space, non-\<open>@\<close> characters is the local part; it must be non-empty and
  followed by \<open>@\<close>; what follows must consist of such characters only and hold a dot
  that is neither its first nor its last character.
\<close>

definition emailChar :: "char \<Rightarrow> bool" where
  "emailChar c = (\<not> isWhiteSpace c \<and> c \<noteq> CHR ''@'')"

definition validateEmail :: "string \<Rightarrow> bool" where
  "validateEmail email =
     (takeWhile emailChar email \<noteq> [] \<and>
      (case dropWhile emailChar email of
         [] \<Rightarrow> False
       | c # domain \<Rightarrow>
           c = CHR ''@'' \<and> list_all emailChar domain \<and> CHR ''.'' \<in> set (tl (butlast domain))))"

text \<open>
  \<open>validatePassword\<close>: at least 8 code units, and a match of the unanchored pattern
  \<open>(?=.*[a-z])(?=.*[A-Z])(?=.*\d)\<close>. The three lookaheads start at one position and
  \<open>.\<close> stops at a line terminator, so the pattern matches exactly when one line of the
  password holds a lower-case letter, an upper-case letter and a digit.
\<close>

fun splitLines :: "string \<Rightarrow> string list" where
  "splitLines [] = [] # []"
| "splitLines (c # cs) =
     (if isLineTerminator c then [] # splitLines cs
      else (case splitLines cs of [] \<Rightarrow> [c] # [] | l # ls \<Rightarrow> (c # l) # ls))"

definition strongLine :: "string \<Rightarrow> bool" where
  "strongLine l = (list_ex isLower l \<and> list_ex isUpper l \<and> list_ex isDigit l)"

record validation =
  isValid :: bool
  v_message :: string

definition validatePassword :: "string \<Rightarrow> validation" where
  "validatePassword password =
     (if length password < 8 then
        \<lparr>isValid = False, v_message = ''Password must be at least 8 characters long''\<rparr>
      else if \<not> list_ex strongLine (splitLines password) then
        \<lparr>isValid = False, v_message =
           ''Password must contain at least one uppercase letter, one lowercase letter, and one number''\<rparr>
      else \<lparr>isValid = True, v_message = ''Password is valid''\<rparr>)"

text \<open>\<open>Number.prototype.toString\<close> on an integer: its decimal digits, with a sign.\<close>

fun showNat :: "nat \<Rightarrow> string" where
  "showNat n =
     (if n < 10 then [''0123456789'' ! n]
      else showNat (n div 10) @ [''0123456789'' ! (n mod 10)])"

declare showNat.simps [simp del]

definition showInt :: "int \<Rightarrow> string" where
  "showInt i = (if i < 0 then CHR ''-'' # showNat (nat (- i)) else showNat (nat i))"

section \<open>Data model\<close>

record note_lists =
  lectures :: "string list"
  pyqs :: "string list"

text \<open>
  A stored user record. The source's fields \<open>id\<close>, \<open>name\<close>, \<open>email\<close> and \<open>notes\<close>
  carry the prefix \<open>u_\<close>. Fields that a record may lack (\<open>notes\<close>, \<open>updatedAt\<close>,
  \<open>tempPassword\<close>) are options; an absent \<open>mustChangePassword\<close> is \<open>False\<close>.
\<close>

record user =
  u_id :: string
  u_name :: string
  u_email :: string
  passwordHash :: string
  salt :: string
  createdAt :: string
  college :: string
  branch :: string
  year :: string
  u_notes :: "note_lists option"
  updatedAt :: "string option"
  tempPassword :: "string option"
  mustChangePassword :: bool

record session =
  userId :: string
  s_email :: string
  s_name :: string
  loginTime :: int
  remember :: bool
  lastActivity :: "int option"

text \<open>
  Browser-local storage: the two keys \<open>notesvault_users\<close> and \<open>notesvault_session\<close>.
  \<open>None\<close> is a key that is not set; a key that is set holds the serialisation of a
  well-formed value, so \<open>JSON.parse\<close> after \<open>JSON.stringify\<close> is the identity.
\<close>

record store =
  users_item :: "user list option"
  session_item :: "session option"

text \<open>
  What the browser supplies: the clock (\<open>Date.now()\<close> in milliseconds and the ISO
  string of \<open>new Date()\<close>, read once per operation), the SHA-256 digest in base64
  (\<open>None\<close>: the call throws or its promise rejects), the 16 random bytes of
  \<open>generateSalt\<close> in base64 (\<open>None\<close>: the call throws), the value of
  \<open>Math.random().toString(36).slice(-8)\<close> and the string that
  \<open>URL.createObjectURL\<close> returns.
\<close>

record env =
  now :: int
  nowISO :: string
  digest :: "string \<Rightarrow> string option"
  randomSalt :: "string option"
  randomTemp :: string
  objectURL :: string

datatype 'a outcome = Returns 'a | Throws

record login_user =
  l_id :: string
  l_name :: string
  l_email :: string
  l_college :: string
  l_branch :: string
  l_year :: string

record current_user =
  c_id :: string
  c_name :: string
  c_email :: string
  c_college :: string
  c_branch :: string
  c_year :: string
  c_createdAt :: string
  c_notes :: "note_lists option"

record result =
  success :: bool
  message :: string
  r_user :: "login_user option"
  r_tempPassword :: "string option"

definition failure :: "string \<Rightarrow> result" where
  "failure msg = \<lparr>success = False, message = msg, r_user = None, r_tempPassword = None\<rparr>"

definition succeeded :: "string \<Rightarrow> result" where
  "succeeded msg = \<lparr>success = True, message = msg, r_user = None, r_tempPassword = None\<rparr>"

section \<open>The authentication service\<close>

definition sessionTimeout :: int where
  "sessionTimeout = 24 * 60 * 60 * 1000"

definition generateSalt :: "env \<Rightarrow> string option" where
  "generateSalt e = randomSalt e"

definition hashPassword :: "env \<Rightarrow> string \<Rightarrow> string \<Rightarrow> string option" where
  "hashPassword e password slt = digest e (password @ slt)"

definition getUsers :: "store \<Rightarrow> user list" where
  "getUsers st = (case users_item st of None \<Rightarrow> [] | Some users \<Rightarrow> users)"

definition saveUsers :: "user list \<Rightarrow> store \<Rightarrow> store" where
  "saveUsers users st = st\<lparr>users_item := Some users\<rparr>"

definition userExists :: "string \<Rightarrow> store \<Rightarrow> bool" where
  "userExists email st = list_ex (\<lambda>user. u_email user = email) (getUsers st)"

definition getSession :: "store \<Rightarrow> session option" where
  "getSession st = session_item st"

text \<open>
  \<open>logout\<close> removes the session key. Its redirect changes the window location only,
  which is outside the store.
\<close>

definition logout :: "store \<Rightarrow> store" where
  "logout st = st\<lparr>session_item := None\<rparr>"

text \<open>\<open>Array.prototype.findIndex\<close>; \<open>None\<close> is the source's \<open>-1\<close>.\<close>

fun findIndex :: "('a \<Rightarrow> bool) \<Rightarrow> 'a list \<Rightarrow> nat option" where
  "findIndex P [] = None"
| "findIndex P (x # xs) = (if P x then Some 0 else map_option Suc (findIndex P xs))"

definition publicView :: "user \<Rightarrow> current_user" where
  "publicView u =
     \<lparr>c_id = u_id u, c_name = u_name u, c_email = u_email u, c_college = college u,
      c_branch = branch u, c_year = year u, c_createdAt = createdAt u, c_notes = u_notes u\<rparr>"

definition getCurrentUser :: "store \<Rightarrow> current_user option \<times> store" where
  "getCurrentUser st =
     (case getSession st of
        None \<Rightarrow> (None, st)
      | Some sess \<Rightarrow>
          (case find (\<lambda>u. u_id u = userId sess) (getUsers st) of
             None \<Rightarrow> (None, logout st)
           | Some u \<Rightarrow> (Some (publicView u), st)))"

definition isLoggedIn :: "store \<Rightarrow> bool \<times> store" where
  "isLoggedIn st = (case getCurrentUser st of (cu, st') \<Rightarrow> (cu \<noteq> None, st'))"

definition validateSession :: "env \<Rightarrow> store \<Rightarrow> store" where
  "validateSession e st =
     (case getSession st of
        None \<Rightarrow> st
      | Some sess \<Rightarrow>
          if \<not> remember sess \<and> now e - loginTime sess > sessionTimeout then logout st
          else st\<lparr>session_item := Some (sess\<lparr>lastActivity := Some (now e)\<rparr>)\<rparr>)"

text \<open>
  Each asynchronous operation is a \<open>try\<close> block and its \<open>catch\<close>. The body
  (\<open>_body\<close>) yields \<open>Throws\<close> where a call of the browser throws; the operation
  turns that into its generic failure result. The arguments are strings, as the forms
  of the pages deliver them (\<open>register\<close> takes the three fields of its \<open>userData\<close>);
  an empty string is the only falsy one.
\<close>

definition register_body ::
  "env \<Rightarrow> string \<Rightarrow> string \<Rightarrow> string \<Rightarrow> store \<Rightarrow> result outcome \<times> store" where
  "register_body e name email password st =
     (if name = [] \<or> email = [] \<or> password = [] then
        (Returns (failure ''All fields are required''), st)
      else
        let sanitizedName = sanitizeInput name;
            sanitizedEmail = toLowerCase (sanitizeInput email)
        in if \<not> validateEmail sanitizedEmail then
             (Returns (failure ''Please enter a valid email address''), st)
           else
             let passwordValidation = validatePassword password
             in if \<not> isValid passwordValidation then
                  (Returns (failure (v_message passwordValidation)), st)
                else if userExists sanitizedEmail st then
                  (Returns (failure ''An account with this email already exists''), st)
                else
                  (case generateSalt e of
                     None \<Rightarrow> (Throws, st)
                   | Some slt \<Rightarrow>
                       (case hashPassword e password slt of
                          None \<Rightarrow> (Throws, st)
                        | Some hashedPassword \<Rightarrow>
                            let newUser =
                                  \<lparr>u_id = showInt (now e), u_name = sanitizedName,
                                   u_email = sanitizedEmail, passwordHash = hashedPassword,
                                   salt = slt, createdAt = nowISO e, college = [],
                                   branch = [], year = [],
                                   u_notes = Some \<lparr>lectures = [], pyqs = []\<rparr>,
                                   updatedAt = None, tempPassword = None,
                                   mustChangePassword = False\<rparr>
                            in (Returns (succeeded ''Account created successfully!''),
                                saveUsers (getUsers st @ [newUser]) st))))"

definition try_catch :: "string \<Rightarrow> result outcome \<times> store \<Rightarrow> result \<times> store" where
  "try_catch msg r =
     (case r of (Returns v, st) \<Rightarrow> (v, st) | (Throws, st) \<Rightarrow> (failure msg, st))"

definition register ::
  "env \<Rightarrow> string \<Rightarrow> string \<Rightarrow> string \<Rightarrow> store \<Rightarrow> result \<times> store" where
  "register e name email password st =
     try_catch ''Registration failed. Please try again.'' (register_body e name email password st)"

definition login_body ::
  "env \<Rightarrow> string \<Rightarrow> string \<Rightarrow> bool \<Rightarrow> store \<Rightarrow> result outcome \<times> store" where
  "login_body e email password rem st =
     (if email = [] \<or> password = [] then
        (Returns (failure ''Email and password are required''), st)
      else
        let sanitizedEmail = toLowerCase (sanitizeInput email)
        in (case find (\<lambda>u. u_email u = sanitizedEmail) (getUsers st) of
             None \<Rightarrow> (Returns (failure ''Invalid email or password''), st)
           | Some u \<Rightarrow>
               (case hashPassword e password (salt u) of
                  None \<Rightarrow> (Throws, st)
                | Some hashedPassword \<Rightarrow>
                    if hashedPassword \<noteq> passwordHash u then
                      (Returns (failure ''Invalid email or password''), st)
                    else
                      (Returns
                         \<lparr>success = True, message = ''Login successful!'',
                          r_user = Some \<lparr>l_id = u_id u, l_name = u_name u, l_email = u_email u,
                                          l_college = college u, l_branch = branch u,
                                          l_year = year u\<rparr>,
                          r_tempPassword = None\<rparr>,
                       st\<lparr>session_item :=
                            Some \<lparr>userId = u_id u, s_email = u_email u, s_name = u_name u,
                                  loginTime = now e, remember = rem, lastActivity = None\<rparr>\<rparr>))))"

definition login :: "env \<Rightarrow> string \<Rightarrow> string \<Rightarrow> bool \<Rightarrow> store \<Rightarrow> result \<times> store" where
  "login e email password rem st =
     try_catch ''Login failed. Please try again.'' (login_body e email password rem st)"

text \<open>
  The argument of \<open>updateProfile\<close>: a field that is \<open>undefined\<close> is \<open>None\<close>. Only
  \<open>name\<close>, \<open>college\<close>, \<open>branch\<close> and \<open>year\<close> are read. The argument itself may
  be missing (\<open>undefined\<close> or \<open>null\<close>, here \<open>None\<close>): then reading
  \<open>profileData[field]\<close> in the first round of \<open>forEach\<close> throws, after the current
  user and the index have been found and before anything is saved.
\<close>

record profile_data =
  p_name :: "string option"
  p_college :: "string option"
  p_branch :: "string option"
  p_year :: "string option"

definition updateField :: "string option \<Rightarrow> string \<Rightarrow> string" where
  "updateField new old = (case new of None \<Rightarrow> old | Some v \<Rightarrow> sanitizeInput v)"

definition applyProfile :: "profile_data \<Rightarrow> user \<Rightarrow> user" where
  "applyProfile pd u =
     u\<lparr>u_name := updateField (p_name pd) (u_name u),
       college := updateField (p_college pd) (college u),
       branch := updateField (p_branch pd) (branch u),
       year := updateField (p_year pd) (year u)\<rparr>"

definition updateProfile_body ::
  "env \<Rightarrow> profile_data option \<Rightarrow> store \<Rightarrow> result outcome \<times> store" where
  "updateProfile_body e profileData st =
     (case getCurrentUser st of
        (None, st1) \<Rightarrow> (Returns (failure ''Not logged in''), st1)
      | (Some currentUser, st1) \<Rightarrow>
          let users = getUsers st1
          in (case findIndex (\<lambda>u. u_id u = c_id currentUser) users of
               None \<Rightarrow> (Returns (failure ''User not found''), st1)
             | Some userIndex \<Rightarrow>
                 (case profileData of
                    None \<Rightarrow> (Throws, st1)
                  | Some pd \<Rightarrow>
                      (Returns (succeeded ''Profile updated successfully!''),
                       saveUsers
                         (users[userIndex :=
                            (applyProfile pd (users ! userIndex))
                              \<lparr>updatedAt := Some (nowISO e)\<rparr>])
                         st1))))"

definition updateProfile ::
  "env \<Rightarrow> profile_data option \<Rightarrow> store \<Rightarrow> result \<times> store" where
  "updateProfile e profileData st =
     try_catch ''Failed to update profile'' (updateProfile_body e profileData st)"

text \<open>
  \<open>changePassword\<close> finds the user object with \<open>users.find\<close> and assigns to its
  fields; the object is an element of \<open>users\<close>, so the assignment is an update of
  \<open>users\<close> at the index of the first match.
\<close>

definition changePassword_body ::
  "env \<Rightarrow> string \<Rightarrow> string \<Rightarrow> store \<Rightarrow> result outcome \<times> store" where
  "changePassword_body e currentPassword newPassword st =
     (case getCurrentUser st of
        (None, st1) \<Rightarrow> (Returns (failure ''Not logged in''), st1)
      | (Some currentUser, st1) \<Rightarrow>
          let users = getUsers st1
          in (case findIndex (\<lambda>u. u_id u = c_id currentUser) users of
               None \<Rightarrow> (Returns (failure ''User not found''), st1)
             | Some i \<Rightarrow>
                 let u = users ! i
                 in (case hashPassword e currentPassword (salt u) of
                      None \<Rightarrow> (Throws, st1)
                    | Some hashedCurrentPassword \<Rightarrow>
                        if hashedCurrentPassword \<noteq> passwordHash u then
                          (Returns (failure ''Current password is incorrect''), st1)
                        else
                          let passwordValidation = validatePassword newPassword
                          in if \<not> isValid passwordValidation then
                               (Returns (failure (v_message passwordValidation)), st1)
                             else
                               (case generateSalt e of
                                  None \<Rightarrow> (Throws, st1)
                                | Some newSalt \<Rightarrow>
                                    (case hashPassword e newPassword newSalt of
                                       None \<Rightarrow> (Throws, st1)
                                     | Some newHashedPassword \<Rightarrow>
                                         (Returns (succeeded ''Password changed successfully!''),
                                          saveUsers
                                            (users[i :=
                                               u\<lparr>passwordHash := newHashedPassword,
                                                 salt := newSalt,
                                                 updatedAt := Some (nowISO e)\<rparr>])
                                            st1))))))"

definition changePassword :: "env \<Rightarrow> string \<Rightarrow> string \<Rightarrow> store \<Rightarrow> result \<times> store" where
  "changePassword e currentPassword newPassword st =
     try_catch ''Failed to change password'' (changePassword_body e currentPassword newPassword st)"

definition deleteAccount_body :: "env \<Rightarrow> string \<Rightarrow> store \<Rightarrow> result outcome \<times> store" where
  "deleteAccount_body e password st =
     (case getCurrentUser st of
        (None, st1) \<Rightarrow> (Returns (failure ''Not logged in''), st1)
      | (Some currentUser, st1) \<Rightarrow>
          let users = getUsers st1
          in (case find (\<lambda>u. u_id u = c_id currentUser) users of
               None \<Rightarrow> (Returns (failure ''User not found''), st1)
             | Some u \<Rightarrow>
                 (case hashPassword e password (salt u) of
                    None \<Rightarrow> (Throws, st1)
                  | Some hashedPassword \<Rightarrow>
                      if hashedPassword \<noteq> passwordHash u then
                        (Returns (failure ''Password is incorrect''), st1)
                      else
                        let updatedUsers = filter (\<lambda>v. u_id v \<noteq> c_id currentUser) users
                        in (Returns (succeeded ''Account deleted successfully''),
                            logout (saveUsers updatedUsers st1)))))"

definition deleteAccount :: "env \<Rightarrow> string \<Rightarrow> store \<Rightarrow> result \<times> store" where
  "deleteAccount e password st =
     try_catch ''Failed to delete account'' (deleteAccount_body e password st)"

text \<open>
  \<open>resetPassword\<close> finds the user by email and then the index by that user's id;
  an index of \<open>-1\<close> would make the assignment to \<open>users[userIndex]\<close> throw.
\<close>

definition resetPassword_body :: "env \<Rightarrow> string \<Rightarrow> store \<Rightarrow> result outcome \<times> store" where
  "resetPassword_body e email st =
     (let sanitizedEmail = toLowerCase (sanitizeInput email)
      in if \<not> validateEmail sanitizedEmail then
           (Returns (failure ''Please enter a valid email address''), st)
         else
           let users = getUsers st
           in (case find (\<lambda>u. u_email u = sanitizedEmail) users of
                None \<Rightarrow>
                  (Returns
                     (succeeded
                        ''If an account with this email exists, a reset link has been sent.''),
                   st)
              | Some u \<Rightarrow>
                  let temp = randomTemp e
                  in (case generateSalt e of
                       None \<Rightarrow> (Throws, st)
                     | Some newSalt \<Rightarrow>
                         (case hashPassword e temp newSalt of
                            None \<Rightarrow> (Throws, st)
                          | Some newHashedPassword \<Rightarrow>
                              (case findIndex (\<lambda>v. u_id v = u_id u) users of
                                 None \<Rightarrow> (Throws, st)
                               | Some userIndex \<Rightarrow>
                                   (Returns
                                      \<lparr>success = True,
                                       message =
                                         ''Password reset successful! Your temporary password is: ''
                                         @ temp @
                                         ''. Please login and change your password immediately.'',
                                       r_user = None, r_tempPassword = Some temp\<rparr>,
                                    saveUsers
                                      (users[userIndex :=
                                         (users ! userIndex)
                                           \<lparr>passwordHash := newHashedPassword, salt := newSalt,
                                            tempPassword := Some temp,
                                            mustChangePassword := True,
                                            updatedAt := Some (nowISO e)\<rparr>])
                                      st))))))"

definition resetPassword :: "env \<Rightarrow> string \<Rightarrow> store \<Rightarrow> result \<times> store" where
  "resetPassword e email st =
     try_catch ''Password reset failed. Please try again.'' (resetPassword_body e email st)"

section \<open>The upload form\<close>

text \<open>
  What \<open>FormData.get\<close> yields for the five fields: \<open>None\<close> is \<open>null\<close> (no such
  field), a text field is its string, the file field is a \<open>File\<close>. A \<open>File\<close> is always
  truthy; a string is truthy when it is not empty.
\<close>

record upload_file =
  f_name :: string
  f_size :: nat

record upload_form =
  form_file :: "upload_file option"
  form_title :: "string option"
  form_subject :: "string option"
  form_semester :: "string option"
  form_noteType :: "string option"

record note_data =
  n_id :: string
  n_title :: string
  n_subject :: string
  n_semester :: string
  n_type :: string
  n_fileName :: string
  n_fileSize :: nat
  n_uploadedBy :: string
  n_uploaderName :: string
  n_uploadedAt :: string
  n_url :: string

text \<open>
  What the handler shows: the alert asking to log in, the alert asking for the
  required fields, the alert of its \<open>catch\<close>, or the success banner for the note.
\<close>

datatype upload_outcome = AlertLogin | AlertRequired | AlertFailed | UploadSuccess note_data

definition truthy :: "string option \<Rightarrow> bool" where
  "truthy v = (case v of None \<Rightarrow> False | Some s \<Rightarrow> s \<noteq> [])"

definition emptyNotes :: note_lists where
  "emptyNotes = \<lparr>lectures = [], pyqs = []\<rparr>"

definition pushTitle :: "string \<Rightarrow> string \<Rightarrow> note_lists \<Rightarrow> note_lists" where
  "pushTitle noteType ttl n =
     (if noteType = ''lecture'' then n\<lparr>lectures := lectures n @ [ttl]\<rparr>
      else if noteType = ''pyq'' then n\<lparr>pyqs := pyqs n @ [ttl]\<rparr>
      else n)"

text \<open>
  \<open>addNoteToUser\<close> reads \<open>currentUser.id\<close> inside the callback of \<open>findIndex\<close>:
  with no current user it throws as soon as the callback runs, that is, when the
  user collection is not empty.
\<close>

definition addNoteToUser :: "note_data \<Rightarrow> string \<Rightarrow> store \<Rightarrow> unit outcome \<times> store" where
  "addNoteToUser noteData noteType st =
     (case getCurrentUser st of
        (None, st1) \<Rightarrow> (if getUsers st1 = [] then (Returns (), st1) else (Throws, st1))
      | (Some currentUser, st1) \<Rightarrow>
          let users = getUsers st1
          in (case findIndex (\<lambda>u. u_id u = c_id currentUser) users of
               None \<Rightarrow> (Returns (), st1)
             | Some userIndex \<Rightarrow>
                 let u = users ! userIndex;
                     n = (case u_notes u of None \<Rightarrow> emptyNotes | Some n \<Rightarrow> n)
                 in (Returns (),
                     saveUsers
                       (users[userIndex :=
                          u\<lparr>u_notes := Some (pushTitle noteType (n_title noteData) n)\<rparr>])
                       st1)))"

definition handleUpload :: "env \<Rightarrow> upload_form \<Rightarrow> store \<Rightarrow> upload_outcome \<times> store" where
  "handleUpload e form st =
     (case getCurrentUser st of
        (None, st1) \<Rightarrow> (AlertLogin, st1)
      | (Some currentUser, st1) \<Rightarrow>
          (case form_file form of
             None \<Rightarrow> (AlertRequired, st1)
           | Some file \<Rightarrow>
               if \<not> truthy (form_title form) \<or> \<not> truthy (form_subject form) \<or>
                  \<not> truthy (form_semester form) \<or> \<not> truthy (form_noteType form)
               then (AlertRequired, st1)
               else
                 (case (form_title form, form_subject form, form_semester form,
                        form_noteType form) of
                    (Some ttl, Some subj, Some sem, Some noteType) \<Rightarrow>
                      let noteData =
                            \<lparr>n_id = showInt (now e), n_title = ttl, n_subject = subj,
                             n_semester = sem, n_type = noteType, n_fileName = f_name file,
                             n_fileSize = f_size file, n_uploadedBy = c_id currentUser,
                             n_uploaderName = c_name currentUser, n_uploadedAt = nowISO e,
                             n_url = objectURL e\<rparr>
                      in (case addNoteToUser noteData noteType st1 of
                            (Returns _, st2) \<Rightarrow> (UploadSuccess noteData, st2)
                          | (Throws, st2) \<Rightarrow> (AlertFailed, st2))
                  | _ \<Rightarrow> (AlertRequired, st1))))"

section \<open>Calls and their values\<close>

text \<open>
  The nine operations of the service as one type of calls, and the JavaScript value a
  call gives back: a result object (success flag and message), a user object,
  \<open>null\<close>, a boolean, or \<open>undefined\<close>.
\<close>

datatype auth_call =
    Register string string string
  | Login string string bool
  | GetCurrentUser
  | IsLoggedIn
  | UpdateProfile "profile_data option"
  | ChangePassword string string
  | DeleteAccount string
  | ResetPassword string
  | Logout

datatype js_value = Result result | UserObject current_user | Null | Boolean bool | Undefined

fun perform :: "env \<Rightarrow> auth_call \<Rightarrow> store \<Rightarrow> js_value \<times> store" where
  "perform e (Register name email password) st =
     (case register e name email password st of (r, st') \<Rightarrow> (Result r, st'))"
| "perform e (Login email password rem) st =
     (case login e email password rem st of (r, st') \<Rightarrow> (Result r, st'))"
| "perform e GetCurrentUser st =
     (case getCurrentUser st of
        (None, st') \<Rightarrow> (Null, st')
      | (Some u, st') \<Rightarrow> (UserObject u, st'))"
| "perform e IsLoggedIn st = (case isLoggedIn st of (b, st') \<Rightarrow> (Boolean b, st'))"
| "perform e (UpdateProfile profileData) st =
     (case updateProfile e profileData st of (r, st') \<Rightarrow> (Result r, st'))"
| "perform e (ChangePassword currentPassword newPassword) st =
     (case changePassword e currentPassword newPassword st of (r, st') \<Rightarrow> (Result r, st'))"
| "perform e (DeleteAccount password) st =
     (case deleteAccount e password st of (r, st') \<Rightarrow> (Result r, st'))"
| "perform e (ResetPassword email) st =
     (case resetPassword e email st of (r, st') \<Rightarrow> (Result r, st'))"
| "perform e Logout st = (Undefined, logout st)"

fun isResult :: "js_value \<Rightarrow> bool" where
  "isResult (Result r) = True"
| "isResult (UserObject u) = False"
| "isResult Null = False"
| "isResult (Boolean b) = False"
| "isResult Undefined = False"

section \<open>Observations\<close>

text \<open>
  The emails of the stored collection are unique and lower-cased.
\<close>

definition emailsUnique :: "store \<Rightarrow> bool" where
  "emailsUnique st =
     (distinct (map u_email (getUsers st)) \<and>
      list_all (\<lambda>u. toLowerCase (u_email u) = u_email u) (getUsers st))"

text \<open>
  The two lists of a notes collection; a record without a notes collection has two
  empty lists (as \<open>addNoteToUser\<close> and the account page treat it).
\<close>

definition lecturesOf :: "note_lists option \<Rightarrow> string list" where
  "lecturesOf n = (case n of None \<Rightarrow> [] | Some l \<Rightarrow> lectures l)"

definition pyqsOf :: "note_lists option \<Rightarrow> string list" where
  "pyqsOf n = (case n of None \<Rightarrow> [] | Some l \<Rightarrow> pyqs l)"

text \<open>
  A record as the service writes it: its email has passed \<open>validateEmail\<close> and
  its hash is the salted hash, under the digest \<open>d\<close>, of a password that is not
  empty. A store is written when all its records are.
\<close>

definition writtenRecord :: "(string \<Rightarrow> string option) \<Rightarrow> user \<Rightarrow> bool" where
  "writtenRecord d u =
     (validateEmail (u_email u) \<and> (\<exists>pw. pw \<noteq> [] \<and> d (pw @ salt u) = Some (passwordHash u)))"

definition writtenStore :: "(string \<Rightarrow> string option) \<Rightarrow> store \<Rightarrow> bool" where
  "writtenStore d st = (\<forall>u \<in> set (getUsers st). writtenRecord d u)"

text \<open>
  The stored record of the logged-in user: the first record whose id is the
  session's \<open>userId\<close>.
\<close>

definition loggedInRecord :: "store \<Rightarrow> user option" where
  "loggedInRecord st =
     (case getSession st of
        None \<Rightarrow> None
      | Some sess \<Rightarrow> find (\<lambda>u. u_id u = userId sess) (getUsers st))"

text \<open>
  Generating a salt, or hashing the password under the generated salt, throws.
\<close>

definition cryptoFails :: "env \<Rightarrow> string \<Rightarrow> bool" where
  "cryptoFails e password =
     (case generateSalt e of None \<Rightarrow> True | Some s \<Rightarrow> hashPassword e password s = None)"

section \<open>Sample data\<close>

text \<open>
  A browser whose digest is replaced by the reversal of its input (an injective
  stand-in for SHA-256), and one whose digest fails.
\<close>

definition demoEnv :: env where
  "demoEnv =
     \<lparr>now = 1700000000000, nowISO = ''2023-11-14T22:13:20.000Z'',
      digest = (\<lambda>d. Some (rev d)), randomSalt = Some ''c2FsdDI='',
      randomTemp = ''k3x9q2ab'', objectURL = ''blob:notesvault/1''\<rparr>"

definition failingEnv :: env where
  "failingEnv = demoEnv\<lparr>digest := (\<lambda>d. None)\<rparr>"

text \<open>Alice's password is \<open>Passw0rd\<close>, Bob's is \<open>Secr3tPwd\<close>.\<close>

definition alice :: user where
  "alice =
     \<lparr>u_id = ''1690000000000'', u_name = ''Alice'', u_email = ''alice@example.com'',
      passwordHash = ''=EDdsF2cdr0wssaP'', salt = ''c2FsdDE='',
      createdAt = ''2023-07-22T04:26:40.000Z'', college = ''MIT'', branch = ''CSE'',
      year = ''2'', u_notes = Some \<lparr>lectures = [''Graphs''], pyqs = [''DSA 2022'']\<rparr>,
      updatedAt = None, tempPassword = None, mustChangePassword = False\<rparr>"

definition bob :: user where
  "bob =
     \<lparr>u_id = ''1690000000001'', u_name = ''Bob'', u_email = ''bob@example.com'',
      passwordHash = ''=ADdsF2cdwPt3rceS'', salt = ''c2FsdDA='',
      createdAt = ''2023-07-22T04:26:40.001Z'', college = [], branch = [],
      year = [], u_notes = None,
      updatedAt = None, tempPassword = None, mustChangePassword = False\<rparr>"

definition aliceSession :: session where
  "aliceSession =
     \<lparr>userId = ''1690000000000'', s_email = ''alice@example.com'', s_name = ''Alice'',
      loginTime = 1699900000000, remember = False, lastActivity = None\<rparr>"

definition emptyStore :: store where
  "emptyStore = \<lparr>users_item = None, session_item = None\<rparr>"

definition demoStore :: store where
  "demoStore = \<lparr>users_item = Some [alice, bob], session_item = Some aliceSession\<rparr>"

text \<open>Alice's session with the remember flag, and her session after her record is gone.\<close>

definition rememberedStore :: store where
  "rememberedStore =
     \<lparr>users_item = Some [alice, bob], session_item = Some (aliceSession\<lparr>remember := True\<rparr>)\<rparr>"

definition danglingStore :: store where
  "danglingStore = \<lparr>users_item = Some [bob], session_item = Some aliceSession\<rparr>"

text \<open>Carol's record carries the same id as Alice's.\<close>

definition carol :: user where
  "carol =
     \<lparr>u_id = ''1690000000000'', u_name = ''Carol'', u_email = ''carol@example.com'',
      passwordHash = ''=QDdsF2cssaPl0raC'', salt = ''c2FsdDQ='',
      createdAt = ''2023-07-22T04:26:40.000Z'', college = [], branch = [],
      year = [], u_notes = Some \<lparr>lectures = [], pyqs = []\<rparr>,
      updatedAt = None, tempPassword = None, mustChangePassword = False\<rparr>"

definition twinStore :: store where
  "twinStore = \<lparr>users_item = Some [alice, carol, bob], session_item = Some aliceSession\<rparr>"

text \<open>The same browser ten minutes later.\<close>

definition laterEnv :: env where
  "laterEnv = demoEnv\<lparr>now := 1700000600000, nowISO := ''2023-11-14T22:23:20.000Z''\<rparr>"

text \<open>Upload submissions, and a store in which Bob (who has no notes collection) is logged in.\<close>

definition lectureForm :: upload_form where
  "lectureForm =
     \<lparr>form_file = Some \<lparr>f_name = ''trees.pdf'', f_size = 52431\<rparr>,
      form_title = Some ''Trees'', form_subject = Some ''DSA'', form_semester = Some ''3'',
      form_noteType = Some ''lecture''\<rparr>"

definition pyqForm :: upload_form where
  "pyqForm = lectureForm\<lparr>form_title := Some ''DSA 2023'', form_noteType := Some ''pyq''\<rparr>"

definition assignmentForm :: upload_form where
  "assignmentForm = lectureForm\<lparr>form_noteType := Some ''assignment''\<rparr>"

definition untitledForm :: upload_form where
  "untitledForm = assignmentForm\<lparr>form_title := None\<rparr>"

definition bobSession :: session where
  "bobSession =
     \<lparr>userId = ''1690000000001'', s_email = ''bob@example.com'', s_name = ''Bob'',
      loginTime = 1699999000000, remember = True, lastActivity = None\<rparr>"

definition bobStore :: store where
  "bobStore = \<lparr>users_item = Some [alice, bob], session_item = Some bobSession\<rparr>"

section \<open>Basic facts\<close>

lemma findIndex_Some:
  "findIndex P xs = Some i \<Longrightarrow> i < length xs \<and> P (xs ! i) \<and> find P xs = Some (xs ! i)"
proof (induction xs arbitrary: i)
  case Nil
  then show ?case by simp
next
  case (Cons x xs)
  show ?case
  proof (cases "P x")
    case True
    with Cons.prems show ?thesis by simp
  next
    case False
    with Cons.prems obtain j where j: "findIndex P xs = Some j" "i = Suc j"
      by auto
    from Cons.IH [OF j(1)] False j(2) show ?thesis by simp
  qed
qed

lemma findIndex_None: "findIndex P xs = None \<longleftrightarrow> find P xs = None"
  by (induction xs) auto

lemma find_Some_findIndex:
  "find P xs = Some x \<Longrightarrow> \<exists>i. findIndex P xs = Some i \<and> i < length xs \<and> xs ! i = x"
proof -
  assume f: "find P xs = Some x"
  then have "findIndex P xs \<noteq> None" by (simp add: findIndex_None)
  then obtain i where i: "findIndex P xs = Some i" by auto
  from findIndex_Some [OF i] f show ?thesis using i by auto
qed

lemma getUsers_simps:
  "getUsers (saveUsers us st) = us"
  "getUsers (logout st) = getUsers st"
  "getUsers (st\<lparr>session_item := s\<rparr>) = getUsers st"
  by (simp_all add: getUsers_def saveUsers_def logout_def)

lemma getSession_simps:
  "getSession (saveUsers us st) = getSession st"
  "getSession (logout st) = None"
  "getSession (st\<lparr>session_item := s\<rparr>) = s"
  by (simp_all add: getSession_def saveUsers_def logout_def)

lemma getCurrentUser_no_session: "getSession st = None \<Longrightarrow> getCurrentUser st = (None, st)"
  by (simp add: getCurrentUser_def)

lemma getCurrentUser_Some:
  "getCurrentUser st = (Some cu, st') \<Longrightarrow>
     st' = st \<and> (\<exists>sess u. getSession st = Some sess \<and>
        find (\<lambda>u. u_id u = userId sess) (getUsers st) = Some u \<and> cu = publicView u)"
  by (auto simp: getCurrentUser_def split: option.splits)

lemma getCurrentUser_found:
  "getSession st = Some sess \<Longrightarrow> find (\<lambda>u. u_id u = userId sess) (getUsers st) = Some u \<Longrightarrow>
     getCurrentUser st = (Some (publicView u), st)"
  by (simp add: getCurrentUser_def)

lemma try_catch_simps:
  "try_catch msg (Returns r, st) = (r, st)"
  "try_catch msg (Throws, st) = (failure msg, st)"
  by (simp_all add: try_catch_def)

lemma success_failure: "success (failure msg) = False" "message (failure msg) = msg"
  by (simp_all add: failure_def)

lemma success_succeeded: "success (succeeded msg) = True" "message (succeeded msg) = msg"
  by (simp_all add: succeeded_def)

section \<open>Facts about the sample data\<close>

lemma canon_alice: "toLowerCase (sanitizeInput '' Alice@Example.COM'') = ''alice@example.com''"
  by code_simp

lemma canon_alice_plain: "toLowerCase (sanitizeInput ''alice@example.com'') = ''alice@example.com''"
  by code_simp

lemma demo_users: "getUsers demoStore = [alice, bob]"
  by (simp add: getUsers_def demoStore_def)

lemma alice_logged_in: "getCurrentUser demoStore = (Some (publicView alice), demoStore)"
  by (simp add: getCurrentUser_def getSession_def getUsers_def demoStore_def aliceSession_def
      alice_def)

lemma alice_logged_in_fst: "fst (getCurrentUser demoStore) = Some (publicView alice)"
  by (simp add: getCurrentUser_def getSession_def getUsers_def demoStore_def aliceSession_def
      alice_def)

section \<open>The upload handler of a logged-in user\<close>

lemma logged_in:
  assumes "fst (getCurrentUser st) = Some cu"
  obtains sess i where "getCurrentUser st = (Some cu, st)" "getSession st = Some sess"
    "c_id cu = userId sess"
    "findIndex (\<lambda>u. u_id u = c_id cu) (getUsers st) = Some i" "i < length (getUsers st)"
    "cu = publicView (getUsers st ! i)"
proof -
  obtain st1 where "getCurrentUser st = (Some cu, st1)"
    using assms by (cases "getCurrentUser st") simp
  from getCurrentUser_Some [OF this] this obtain sess u
    where cu: "getCurrentUser st = (Some cu, st)"
      and u: "find (\<lambda>u. u_id u = userId sess) (getUsers st) = Some u" "cu = publicView u"
      and sess: "getSession st = Some sess"
    by auto
  from u(1) have "u_id u = userId sess" by (auto simp: find_Some_iff)
  with u(2) have cid: "c_id cu = userId sess" by (simp add: publicView_def)
  from find_Some_findIndex [OF u(1)] obtain i
    where "findIndex (\<lambda>u. u_id u = c_id cu) (getUsers st) = Some i"
      "i < length (getUsers st)" "getUsers st ! i = u"
    unfolding cid by auto
  with cu sess cid u(2) that show thesis by simp
qed

lemma addNoteToUser_logged_in:
  assumes "getCurrentUser st = (Some cu, st)"
    and "findIndex (\<lambda>u. u_id u = c_id cu) (getUsers st) = Some i"
  shows "addNoteToUser noteData noteType st =
     (Returns (),
      saveUsers ((getUsers st)[i := (getUsers st ! i)
        \<lparr>u_notes := Some (pushTitle noteType (n_title noteData)
           (case u_notes (getUsers st ! i) of None \<Rightarrow> emptyNotes | Some n \<Rightarrow> n))\<rparr>]) st)"
  using assms by (simp add: addNoteToUser_def Let_def)

lemma handleUpload_complete:
  assumes "getCurrentUser st = (Some cu, st)"
    and "findIndex (\<lambda>u. u_id u = c_id cu) (getUsers st) = Some i"
    and "form_file form = Some file"
    and "form_title form = Some ttl" "ttl \<noteq> []"
    and "truthy (form_subject form)" "truthy (form_semester form)"
    and "form_noteType form = Some noteType" "noteType \<noteq> []"
  shows "\<exists>noteData. n_title noteData = ttl \<and>
     handleUpload e form st =
     (UploadSuccess noteData,
      saveUsers ((getUsers st)[i := (getUsers st ! i)
        \<lparr>u_notes := Some (pushTitle noteType ttl
           (case u_notes (getUsers st ! i) of None \<Rightarrow> emptyNotes | Some n \<Rightarrow> n))\<rparr>]) st)"
proof -
  from assms(6,7) obtain subj sem
    where f: "form_subject form = Some subj" "form_semester form = Some sem"
    by (auto simp: truthy_def split: option.splits)
  show ?thesis
    using assms(1,3,4,5,6,7,8,9) f
    by (simp add: handleUpload_def truthy_def Let_def addNoteToUser_logged_in [OF assms(1,2)])
qed

section \<open>Session expiry on page load\<close>

text \<open>
  Claim C7. On page load \<open>validateSession\<close> looks at the stored session. When its
  remember flag is false and its age, the current time minus \<open>loginTime\<close>, exceeds
  24 hours (in milliseconds), the session is removed and \<open>isLoggedIn\<close> is false
  afterwards. When the remember flag is set, the session stays whatever its age; only
  its \<open>lastActivity\<close> is refreshed.
\<close>

theorem validateSession_expiry:
  assumes "getSession st = Some sess"
  shows "(\<not> remember sess \<and> now e - loginTime sess > 24 * 60 * 60 * 1000 \<longrightarrow>
            getSession (validateSession e st) = None \<and>
            fst (isLoggedIn (validateSession e st)) = False) \<and>
         (remember sess \<longrightarrow>
            getSession (validateSession e st) = Some (sess\<lparr>lastActivity := Some (now e)\<rparr>))"
  using assms
  by (simp add: validateSession_def sessionTimeout_def isLoggedIn_def getSession_simps
      getCurrentUser_no_session)

theorem validateSession_expiry_witness:
  "getSession demoStore = Some aliceSession \<and> \<not> remember aliceSession \<and>
   now demoEnv - loginTime aliceSession > 24 * 60 * 60 * 1000 \<and>
   getSession (validateSession demoEnv demoStore) = None \<and>
   fst (isLoggedIn (validateSession demoEnv demoStore)) = False \<and>
   getSession rememberedStore = Some (aliceSession\<lparr>remember := True\<rparr>) \<and>
   remember (aliceSession\<lparr>remember := True\<rparr>) \<and>
   getSession (validateSession demoEnv rememberedStore) =
     Some (aliceSession\<lparr>remember := True, lastActivity := Some 1700000000000\<rparr>)"
proof -
  have expired: "getSession demoStore = Some aliceSession"
    by (simp add: getSession_def demoStore_def)
  have remembered: "getSession rememberedStore = Some (aliceSession\<lparr>remember := True\<rparr>)"
    by (simp add: getSession_def rememberedStore_def)
  show ?thesis
    using validateSession_expiry [OF expired, of demoEnv]
      validateSession_expiry [OF remembered, of demoEnv] expired remembered
    by (simp add: aliceSession_def demoEnv_def)
qed

section \<open>Sessions without a user record\<close>

text \<open>
  Claim C9. When the stored session's \<open>userId\<close> is the id of no stored user record,
  \<open>getCurrentUser\<close> returns \<open>null\<close> and removes the session (the user
  collection stays as it is), and \<open>isLoggedIn\<close> is false.
\<close>

theorem getCurrentUser_dangling_session:
  assumes "getSession st = Some sess"
    and "\<forall>u \<in> set (getUsers st). u_id u \<noteq> userId sess"
  shows "fst (getCurrentUser st) = None \<and>
         getSession (snd (getCurrentUser st)) = None \<and>
         getUsers (snd (getCurrentUser st)) = getUsers st \<and>
         fst (isLoggedIn st) = False"
proof -
  from assms(2) have "find (\<lambda>u. u_id u = userId sess) (getUsers st) = None"
    by (simp add: find_None_iff)
  with assms(1) have "getCurrentUser st = (None, logout st)"
    by (simp add: getCurrentUser_def)
  then show ?thesis
    by (simp add: isLoggedIn_def getSession_simps getUsers_simps)
qed

theorem getCurrentUser_dangling_session_witness:
  "getSession danglingStore = Some aliceSession \<and>
   list_all (\<lambda>u. u_id u \<noteq> userId aliceSession) (getUsers danglingStore) \<and>
   fst (getCurrentUser danglingStore) = None \<and>
   getSession (snd (getCurrentUser danglingStore)) = None \<and>
   getUsers (snd (getCurrentUser danglingStore)) = [bob] \<and>
   fst (isLoggedIn danglingStore) = False"
proof -
  have sess: "getSession danglingStore = Some aliceSession"
    by (simp add: getSession_def danglingStore_def)
  have users: "getUsers danglingStore = [bob]"
    by (simp add: getUsers_def danglingStore_def)
  have none: "\<forall>u \<in> set (getUsers danglingStore). u_id u \<noteq> userId aliceSession"
    by (simp add: users bob_def aliceSession_def)
  show ?thesis
    using getCurrentUser_dangling_session [OF sess none] sess none users
    by (simp add: list_all_iff)
qed

section \<open>The password check of login\<close>



lemma validatePassword_nonempty: "isValid (validatePassword p) \<Longrightarrow> p \<noteq> []"
  by (auto simp: validatePassword_def split: if_splits)


text \<open>
  Every call of the service keeps the store written, for one digest and a temporary
  password that is not empty (\<open>Math.random().toString(36).slice(-8)\<close> never is).
  The empty store is written, so every store the service produces is.
\<close>

lemma emptyStore_written: "writtenStore d emptyStore"
  by (simp add: writtenStore_def getUsers_def emptyStore_def)

lemma writtenStore_session [simp]:
  "writtenStore d (logout st) = writtenStore d st"
  "writtenStore d (st\<lparr>session_item := s\<rparr>) = writtenStore d st"
  by (simp_all add: writtenStore_def getUsers_simps)

lemma writtenStore_update:
  assumes "writtenStore d st" and "writtenRecord d u'"
  shows "writtenStore d (saveUsers ((getUsers st)[i := u']) st)"
  using assms set_update_subset_insert [of "getUsers st" i u']
  by (auto simp: writtenStore_def getUsers_simps)

lemma writtenStore_filter:
  "writtenStore d st \<Longrightarrow> writtenStore d (saveUsers (filter P (getUsers st)) st)"
  by (simp add: writtenStore_def getUsers_simps)

lemma writtenStore_append:
  "writtenStore d st \<Longrightarrow> writtenRecord d u \<Longrightarrow> writtenStore d (saveUsers (getUsers st @ [u]) st)"
  by (auto simp: writtenStore_def getUsers_simps)

lemma writtenStore_nth:
  "writtenStore d st \<Longrightarrow> findIndex P (getUsers st) = Some i \<Longrightarrow> writtenRecord d (getUsers st ! i)"
  using findIndex_Some [of P "getUsers st" i] by (simp add: writtenStore_def)

lemma writtenRecord_rehash:
  assumes "validateEmail (u_email u)" and "pw \<noteq> []" and "d (pw @ s) = Some h"
  shows "writtenRecord d (u\<lparr>passwordHash := h, salt := s, updatedAt := t\<rparr>)"
    and "writtenRecord d (u\<lparr>passwordHash := h, salt := s, tempPassword := tp,
            mustChangePassword := m, updatedAt := t\<rparr>)"
  using assms by (auto simp: writtenRecord_def)

lemma writtenRecord_profile:
  "writtenRecord d u \<Longrightarrow> writtenRecord d ((applyProfile pd u)\<lparr>updatedAt := t\<rparr>)"
  by (simp add: writtenRecord_def applyProfile_def)

lemma getCurrentUser_written:
  "getCurrentUser st = (cu, st') \<Longrightarrow> getUsers st' = getUsers st \<and> writtenStore d st' = writtenStore d st"
  by (auto simp: getCurrentUser_def getUsers_simps split: option.splits)

lemma register_written:
  assumes "writtenStore (digest e) st"
  shows "writtenStore (digest e) (snd (register e name email password st))"
proof -
  have new: "writtenStore (digest e) (saveUsers (getUsers st @ [u]) st)"
    if "validateEmail (u_email u)" "isValid (validatePassword password)"
      "digest e (password @ salt u) = Some (passwordHash u)" for u
    using assms
  proof (rule writtenStore_append)
    from that validatePassword_nonempty show "writtenRecord (digest e) u"
      by (auto simp: writtenRecord_def)
  qed
  show ?thesis
    using assms
    by (simp add: register_def register_body_def Let_def try_catch_simps new hashPassword_def
        split: option.splits)
qed

lemma login_written:
  "writtenStore d st \<Longrightarrow> writtenStore d (snd (login e email password rem st))"
  by (simp add: login_def login_body_def Let_def try_catch_simps split: option.splits)

lemma updateProfile_written:
  assumes "writtenStore d st"
  shows "writtenStore d (snd (updateProfile e profileData st))"
proof (cases "getCurrentUser st")
  case (Pair cu st1)
  from getCurrentUser_written [OF Pair] assms
  have st1: "getUsers st1 = getUsers st" "writtenStore d st1" by simp_all
  have upd: "writtenStore d (saveUsers ((getUsers st1)[i :=
        (applyProfile pd (getUsers st1 ! i))\<lparr>updatedAt := t\<rparr>]) st1)"
    if "findIndex P (getUsers st1) = Some i" for P i pd t
    using st1(2) writtenRecord_profile [OF writtenStore_nth [OF st1(2) that]]
    by (rule writtenStore_update)
  from Pair st1(2) show ?thesis
    by (simp add: updateProfile_def updateProfile_body_def try_catch_simps Let_def upd
        split: option.splits)
qed

lemma changePassword_written:
  assumes "writtenStore (digest e) st"
  shows "writtenStore (digest e) (snd (changePassword e currentPassword newPassword st))"
proof (cases "getCurrentUser st")
  case (Pair cu st1)
  from getCurrentUser_written [OF Pair] assms
  have st1: "getUsers st1 = getUsers st" "writtenStore (digest e) st1" by simp_all
  have upd: "writtenStore (digest e) (saveUsers ((getUsers st1)[i :=
        (getUsers st1 ! i)\<lparr>passwordHash := h, salt := s, updatedAt := t\<rparr>]) st1)"
    if "findIndex P (getUsers st1) = Some i" "isValid (validatePassword newPassword)"
      "digest e (newPassword @ s) = Some h" for P i h s t
  proof (rule writtenStore_update [OF st1(2)])
    from writtenStore_nth [OF st1(2) that(1)]
    have "validateEmail (u_email (getUsers st1 ! i))" by (simp add: writtenRecord_def)
    then show "writtenRecord (digest e)
        ((getUsers st1 ! i)\<lparr>passwordHash := h, salt := s, updatedAt := t\<rparr>)"
      using validatePassword_nonempty [OF that(2)] that(3) by (rule writtenRecord_rehash)
  qed
  from Pair st1(2) show ?thesis
    by (simp add: changePassword_def changePassword_body_def try_catch_simps Let_def upd
        hashPassword_def split: option.splits)
qed

lemma deleteAccount_written:
  assumes "writtenStore d st"
  shows "writtenStore d (snd (deleteAccount e password st))"
proof (cases "getCurrentUser st")
  case (Pair cu st1)
  from getCurrentUser_written [OF Pair] assms
  have st1: "getUsers st1 = getUsers st" "writtenStore d st1" by simp_all
  from st1(2) have del: "writtenStore d (saveUsers (filter P (getUsers st1)) st1)" for P
    by (rule writtenStore_filter)
  from Pair st1(2) show ?thesis
    by (simp add: deleteAccount_def deleteAccount_body_def try_catch_simps Let_def del
        split: option.splits)
qed

lemma resetPassword_written:
  assumes "writtenStore (digest e) st" and "randomTemp e \<noteq> []"
  shows "writtenStore (digest e) (snd (resetPassword e email st))"
proof -
  have upd: "writtenStore (digest e) (saveUsers ((getUsers st)[i :=
        (getUsers st ! i)\<lparr>passwordHash := h, salt := s, tempPassword := tp,
          mustChangePassword := True, updatedAt := t\<rparr>]) st)"
    if "findIndex P (getUsers st) = Some i" "digest e (randomTemp e @ s) = Some h"
    for P i h s tp t
  proof (rule writtenStore_update [OF assms(1)])
    from writtenStore_nth [OF assms(1) that(1)]
    have "validateEmail (u_email (getUsers st ! i))" by (simp add: writtenRecord_def)
    then show "writtenRecord (digest e)
        ((getUsers st ! i)\<lparr>passwordHash := h, salt := s, tempPassword := tp,
          mustChangePassword := True, updatedAt := t\<rparr>)"
      using assms(2) that(2) by (rule writtenRecord_rehash)
  qed
  from assms(1) show ?thesis
    by (simp add: resetPassword_def resetPassword_body_def try_catch_simps Let_def upd
        hashPassword_def split: option.splits)
qed

lemma written_records_invariant:
  assumes "writtenStore (digest e) st" and "randomTemp e \<noteq> []"
  shows "writtenStore (digest e) (snd (perform e c st))"
proof (cases c)
  case (Register name email password)
  with register_written [OF assms(1)] show ?thesis by (simp add: split_beta)
next
  case (Login email password rem)
  with login_written [OF assms(1)] show ?thesis by (simp add: split_beta)
next
  case GetCurrentUser
  obtain cu st1 where cu: "getCurrentUser st = (cu, st1)" by (cases "getCurrentUser st")
  from getCurrentUser_written [OF cu] assms(1) GetCurrentUser cu show ?thesis
    by (cases cu) simp_all
next
  case IsLoggedIn
  obtain cu st1 where cu: "getCurrentUser st = (cu, st1)" by (cases "getCurrentUser st")
  from getCurrentUser_written [OF cu] assms(1) IsLoggedIn cu show ?thesis
    by (simp add: isLoggedIn_def)
next
  case (UpdateProfile profileData)
  with updateProfile_written [OF assms(1)] show ?thesis by (simp add: split_beta)
next
  case (ChangePassword currentPassword newPassword)
  with changePassword_written [OF assms(1)] show ?thesis by (simp add: split_beta)
next
  case (DeleteAccount password)
  with deleteAccount_written [OF assms(1)] show ?thesis by (simp add: split_beta)
next
  case (ResetPassword email)
  with resetPassword_written [OF assms] show ?thesis by (simp add: split_beta)
next
  case Logout
  with assms(1) show ?thesis by simp
qed

lemma writtenRecord_password:
  assumes "writtenRecord (digest e) u"
  shows "validateEmail (u_email u) \<and>
         (\<exists>pw. pw \<noteq> [] \<and> hashPassword e pw (salt u) = Some (passwordHash u))"
  using assms by (simp add: writtenRecord_def hashPassword_def)





section \<open>Registering an email twice\<close>

text \<open>
  Claim C3, as amended. When the stored collection already holds a record whose email
  is the sanitized, lower-cased email argument, \<open>register\<close> returns a failure and
  leaves the store as it is. The message is that an account with this email already
  exists when the earlier checks pass: name, email and password are not empty, the
  sanitized email is well-formed and the password is strong enough.
\<close>

theorem register_duplicate_email:
  assumes "userExists (toLowerCase (sanitizeInput email)) st"
  shows "\<not> success (fst (register e name email password st)) \<and>
         snd (register e name email password st) = st \<and>
         (name \<noteq> [] \<and> email \<noteq> [] \<and> password \<noteq> [] \<and>
          validateEmail (toLowerCase (sanitizeInput email)) \<and>
          isValid (validatePassword password) \<longrightarrow>
            message (fst (register e name email password st)) =
              ''An account with this email already exists'')"
  using assms
  by (simp add: register_def register_body_def Let_def try_catch_simps success_failure)

lemma exists_alice: "userExists (toLowerCase (sanitizeInput '' Alice@Example.COM'')) demoStore"
  by (simp add: canon_alice userExists_def getUsers_def demoStore_def alice_def)

lemma valid_alice: "validateEmail (toLowerCase (sanitizeInput '' Alice@Example.COM''))"
  unfolding canon_alice by code_simp

lemma valid_password: "isValid (validatePassword ''An0therPwd'')"
  by code_simp

theorem register_duplicate_email_witness:
  "userExists (toLowerCase (sanitizeInput '' Alice@Example.COM'')) demoStore \<and>
   validateEmail (toLowerCase (sanitizeInput '' Alice@Example.COM'')) \<and>
   isValid (validatePassword ''An0therPwd'') \<and>
   \<not> success (fst (register demoEnv ''Alice B'' '' Alice@Example.COM'' ''An0therPwd'' demoStore)) \<and>
   snd (register demoEnv ''Alice B'' '' Alice@Example.COM'' ''An0therPwd'' demoStore) = demoStore \<and>
   message (fst (register demoEnv ''Alice B'' '' Alice@Example.COM'' ''An0therPwd'' demoStore)) =
     ''An account with this email already exists''"
  using register_duplicate_email [OF exists_alice, of demoEnv "''Alice B''" "''An0therPwd''"]
    exists_alice valid_alice valid_password
  by simp

lemma short_password: "validatePassword ''short'' =
    \<lparr>isValid = False, v_message = ''Password must be at least 8 characters long''\<rparr>"
  by (simp add: validatePassword_def)

text \<open>
  The claim as stated fails when an earlier check fails: with a password of five
  characters the message is the one of the password check.
\<close>

theorem register_duplicate_email_counterexample:
  "userExists (toLowerCase (sanitizeInput '' Alice@Example.COM'')) demoStore \<and>
   message (fst (register demoEnv ''Alice B'' '' Alice@Example.COM'' ''short'' demoStore)) =
     ''Password must be at least 8 characters long''"
  using exists_alice valid_alice
  by (simp add: register_def register_body_def Let_def try_catch_simps success_failure
      short_password)

section \<open>Deleting an account\<close>

lemma filter_single_remove1:
  "filter (\<lambda>v. f v = k) xs = [u] \<Longrightarrow> filter (\<lambda>v. f v \<noteq> k) xs = remove1 u xs"
proof (induction xs)
  case Nil
  then show ?case by simp
next
  case (Cons x xs)
  show ?case
  proof (cases "f x = k")
    case True
    with Cons.prems have "x = u" "filter (\<lambda>v. f v = k) xs = []" by simp_all
    then have "filter (\<lambda>v. f v \<noteq> k) xs = xs"
      by (simp add: filter_empty_conv)
    with \<open>x = u\<close> True show ?thesis by simp
  next
    case False
    with Cons.prems have rest: "filter (\<lambda>v. f v = k) xs = [u]" by simp
    then have "u \<in> set (filter (\<lambda>v. f v = k) xs)" by simp
    then have "f u = k" by simp
    with False have "x \<noteq> u" by auto
    with False Cons.IH [OF rest] show ?thesis by simp
  qed
qed

text \<open>
  The id of a new record is the clock reading of its registration, so two
  registrations within one millisecond create two records with one id.
\<close>

lemma register_new_record:
  assumes "success (fst (register e name email password st))"
  shows "\<exists>u. getUsers (snd (register e name email password st)) = getUsers st @ [u] \<and>
           u_id u = showInt (now e) \<and> u_email u = toLowerCase (sanitizeInput email)"
  using assms
  by (auto simp: register_def register_body_def Let_def try_catch_simps success_failure
      getUsers_simps split: if_splits option.splits)

text \<open>
  Claim C5, as amended. For the logged-in user \<open>u\<close> (the first record whose id is
  the session's \<open>userId\<close>) and a password whose salted hash is \<open>u\<close>'s stored hash,
  \<open>deleteAccount\<close> succeeds, removes every stored record whose id is \<open>u\<close>'s id,
  keeps every other record unchanged and in order, and removes the session. When
  \<open>u\<close> is the only record with its id, exactly \<open>u\<close>'s record is removed.
\<close>

theorem deleteAccount_removes_user:
  assumes "getSession st = Some sess"
    and "find (\<lambda>u. u_id u = userId sess) (getUsers st) = Some u"
    and "hashPassword e password (salt u) = Some (passwordHash u)"
  shows "success (fst (deleteAccount e password st)) \<and>
         getUsers (snd (deleteAccount e password st)) =
           filter (\<lambda>v. u_id v \<noteq> u_id u) (getUsers st) \<and>
         getSession (snd (deleteAccount e password st)) = None \<and>
         (filter (\<lambda>v. u_id v = u_id u) (getUsers st) = [u] \<longrightarrow>
            getUsers (snd (deleteAccount e password st)) = remove1 u (getUsers st))"
proof -
  from assms(2) have id: "u_id u = userId sess"
    by (auto simp: find_Some_iff)
  have cu: "getCurrentUser st = (Some (publicView u), st)"
    using assms(1,2) by (rule getCurrentUser_found)
  have cid: "c_id (publicView u) = userId sess"
    using id by (simp add: publicView_def)
  have run: "deleteAccount e password st =
      (succeeded ''Account deleted successfully'',
       logout (saveUsers (filter (\<lambda>v. u_id v \<noteq> userId sess) (getUsers st)) st))"
    using assms(2,3)
    by (simp add: deleteAccount_def deleteAccount_body_def cu cid Let_def try_catch_simps)
  show ?thesis
    by (simp add: run success_succeeded getUsers_simps getSession_simps id [symmetric]
        filter_single_remove1)
qed

theorem deleteAccount_removes_user_witness:
  "getSession demoStore = Some aliceSession \<and>
   find (\<lambda>u. u_id u = userId aliceSession) (getUsers demoStore) = Some alice \<and>
   hashPassword demoEnv ''Passw0rd'' (salt alice) = Some (passwordHash alice) \<and>
   filter (\<lambda>v. u_id v = u_id alice) (getUsers demoStore) = [alice] \<and>
   success (fst (deleteAccount demoEnv ''Passw0rd'' demoStore)) \<and>
   getUsers (snd (deleteAccount demoEnv ''Passw0rd'' demoStore)) = [bob] \<and>
   getSession (snd (deleteAccount demoEnv ''Passw0rd'' demoStore)) = None"
proof -
  have sess: "getSession demoStore = Some aliceSession"
    by (simp add: getSession_def demoStore_def)
  have users: "getUsers demoStore = [alice, bob]"
    by (simp add: getUsers_def demoStore_def)
  have found: "find (\<lambda>u. u_id u = userId aliceSession) (getUsers demoStore) = Some alice"
    by (simp add: users alice_def aliceSession_def)
  have right: "hashPassword demoEnv ''Passw0rd'' (salt alice) = Some (passwordHash alice)"
    by (simp add: hashPassword_def demoEnv_def alice_def)
  have single: "filter (\<lambda>v. u_id v = u_id alice) (getUsers demoStore) = [alice]"
    by (simp add: users alice_def bob_def)
  have differ: "u_id bob \<noteq> u_id alice"
    by (simp add: alice_def bob_def)
  show ?thesis
    using deleteAccount_removes_user [OF sess found right] sess found right single
    by (simp add: users differ)
qed

text \<open>
  The claim as stated fails when another record shares the id: deleting Alice's
  account removes Carol's record too.
\<close>

theorem deleteAccount_shared_id_counterexample:
  "fst (getCurrentUser twinStore) = Some (publicView alice) \<and>
   hashPassword demoEnv ''Passw0rd'' (salt alice) = Some (passwordHash alice) \<and>
   getUsers twinStore = [alice, carol, bob] \<and> carol \<noteq> alice \<and>
   success (fst (deleteAccount demoEnv ''Passw0rd'' twinStore)) \<and>
   getUsers (snd (deleteAccount demoEnv ''Passw0rd'' twinStore)) = [bob]"
  by (simp add: getCurrentUser_def getSession_def getUsers_def twinStore_def aliceSession_def
      alice_def carol_def bob_def hashPassword_def demoEnv_def deleteAccount_def
      deleteAccount_body_def publicView_def Let_def try_catch_simps success_succeeded
      saveUsers_def logout_def)

section \<open>Uniqueness of emails\<close>

lemma toLowerChar_idem: "toLowerChar (toLowerChar c) = toLowerChar c"
proof (cases "hasLowerCaseMapping c")
  case False
  then show ?thesis by (simp add: toLowerChar_def)
next
  case True
  then have range: "code c + 32 < 256" "97 \<le> code c + 32"
    by (auto simp: hasLowerCaseMapping_def isUpper_def)
  have shifted: "code (char_of (code c + 32)) = code c + 32"
    using range(1) by (simp add: code_def)
  from True have "\<not> hasLowerCaseMapping (char_of (code c + 32))"
    unfolding hasLowerCaseMapping_def isUpper_def shifted by auto
  with True show ?thesis by (simp add: toLowerChar_def)
qed

lemma toLowerCase_idem: "toLowerCase (toLowerCase s) = toLowerCase s"
  by (simp add: toLowerCase_def toLowerChar_idem)

lemma emailsUnique_emails:
  "emailsUnique st \<longleftrightarrow>
     distinct (map u_email (getUsers st)) \<and>
     (\<forall>x \<in> set (map u_email (getUsers st)). toLowerCase x = x)"
  by (auto simp: emailsUnique_def list_all_iff)

lemma emailsUnique_same:
  "map u_email (getUsers st') = map u_email (getUsers st) \<Longrightarrow> emailsUnique st' = emailsUnique st"
  by (simp only: emailsUnique_emails)

lemma emailsUnique_session [simp]:
  "emailsUnique (logout st) = emailsUnique st"
  "emailsUnique (st\<lparr>session_item := s\<rparr>) = emailsUnique st"
  by (simp_all add: emailsUnique_def getUsers_simps)

lemma map_email_update:
  "i < length us \<Longrightarrow> u_email u' = u_email (us ! i) \<Longrightarrow>
     map u_email (us[i := u']) = map u_email us"
  by (simp add: map_update list_update_same_conv)

lemma emailsUnique_update:
  assumes "emailsUnique st" and "findIndex P (getUsers st) = Some i"
    and "u_email u' = u_email (getUsers st ! i)"
  shows "emailsUnique (saveUsers ((getUsers st)[i := u']) st)"
proof -
  from findIndex_Some [OF assms(2)] have "i < length (getUsers st)" by simp
  then have "map u_email ((getUsers st)[i := u']) = map u_email (getUsers st)"
    using assms(3) by (rule map_email_update)
  then have "emailsUnique (saveUsers ((getUsers st)[i := u']) st) = emailsUnique st"
    by (intro emailsUnique_same) (simp only: getUsers_simps)
  with assms(1) show ?thesis by simp
qed

lemma emailsUnique_filter:
  "emailsUnique st \<Longrightarrow> emailsUnique (saveUsers (filter P (getUsers st)) st)"
  by (auto simp: emailsUnique_def getUsers_simps list_all_iff distinct_map_filter)

lemma emailsUnique_append:
  assumes "emailsUnique st" and "\<not> userExists em st" and "toLowerCase em = em"
    and "u_email u = em"
  shows "emailsUnique (saveUsers (getUsers st @ [u]) st)"
  using assms
  by (auto simp: emailsUnique_def getUsers_simps userExists_def list_all_iff list_ex_iff)

lemma getCurrentUser_store:
  "getCurrentUser st = (cu, st') \<Longrightarrow> getUsers st' = getUsers st \<and> emailsUnique st' = emailsUnique st"
  by (auto simp: getCurrentUser_def getUsers_simps split: option.splits)


lemma register_emailsUnique:
  assumes "emailsUnique st"
  shows "emailsUnique (snd (register e name email password st))"
proof -
  have app: "emailsUnique (saveUsers (getUsers st @ [u]) st)"
    if "\<not> userExists (toLowerCase (sanitizeInput email)) st"
      and "u_email u = toLowerCase (sanitizeInput email)" for u
    using assms that(1) toLowerCase_idem that(2) by (rule emailsUnique_append)
  show ?thesis
    using assms
    by (simp add: register_def register_body_def Let_def try_catch_simps app
        split: option.splits)
qed

lemma login_emailsUnique:
  "emailsUnique st \<Longrightarrow> emailsUnique (snd (login e email password rem st))"
  by (simp add: login_def login_body_def Let_def try_catch_simps split: option.splits)

lemma updateProfile_emailsUnique:
  assumes "emailsUnique st"
  shows "emailsUnique (snd (updateProfile e profileData st))"
proof (cases "getCurrentUser st")
  case (Pair cu st1)
  from getCurrentUser_store [OF Pair] assms
  have st1: "getUsers st1 = getUsers st" "emailsUnique st1" by simp_all
  show ?thesis
  proof (cases cu)
    case None
    with Pair st1 show ?thesis
      by (simp add: updateProfile_def updateProfile_body_def try_catch_simps)
  next
    case (Some c)
    show ?thesis
    proof (cases "findIndex (\<lambda>u. u_id u = c_id c) (getUsers st1)")
      case None
      with Pair Some st1 show ?thesis
        by (simp add: updateProfile_def updateProfile_body_def try_catch_simps)
    next
      case (Some i)
      have "emailsUnique (saveUsers ((getUsers st1)[i :=
              (applyProfile pd (getUsers st1 ! i))\<lparr>updatedAt := Some (nowISO e)\<rparr>]) st1)"
        for pd
        by (rule emailsUnique_update [OF st1(2) Some]) (simp add: applyProfile_def)
      with Pair \<open>cu = Some c\<close> Some st1(2) show ?thesis
        by (simp add: updateProfile_def updateProfile_body_def try_catch_simps Let_def
            split: option.splits)
    qed
  qed
qed

lemma changePassword_emailsUnique:
  assumes "emailsUnique st"
  shows "emailsUnique (snd (changePassword e currentPassword newPassword st))"
proof (cases "getCurrentUser st")
  case (Pair cu st1)
  from getCurrentUser_store [OF Pair] assms
  have st1: "getUsers st1 = getUsers st" "emailsUnique st1" by simp_all
  show ?thesis
  proof (cases cu)
    case None
    with Pair st1 show ?thesis
      by (simp add: changePassword_def changePassword_body_def try_catch_simps)
  next
    case (Some c)
    show ?thesis
    proof (cases "findIndex (\<lambda>u. u_id u = c_id c) (getUsers st1)")
      case None
      with Pair Some st1 show ?thesis
        by (simp add: changePassword_def changePassword_body_def try_catch_simps)
    next
      case (Some i)
      have upd: "emailsUnique (saveUsers ((getUsers st1)[i :=
              (getUsers st1 ! i)\<lparr>passwordHash := h, salt := s, updatedAt := Some t\<rparr>]) st1)"
        for h s t
        by (rule emailsUnique_update [OF st1(2) Some]) simp
      from Pair \<open>cu = Some c\<close> Some st1(2) show ?thesis
        by (simp add: changePassword_def changePassword_body_def try_catch_simps Let_def upd
            split: option.splits)
    qed
  qed
qed

lemma deleteAccount_emailsUnique:
  assumes "emailsUnique st"
  shows "emailsUnique (snd (deleteAccount e password st))"
proof (cases "getCurrentUser st")
  case (Pair cu st1)
  from getCurrentUser_store [OF Pair] assms
  have st1: "getUsers st1 = getUsers st" "emailsUnique st1" by simp_all
  from st1(2) have del: "emailsUnique (saveUsers (filter P (getUsers st1)) st1)" for P
    by (rule emailsUnique_filter)
  from Pair st1(2) show ?thesis
    by (simp add: deleteAccount_def deleteAccount_body_def try_catch_simps Let_def del
        split: option.splits)
qed

lemma resetPassword_emailsUnique:
  assumes "emailsUnique st"
  shows "emailsUnique (snd (resetPassword e email st))"
proof -
  have upd: "emailsUnique (saveUsers ((getUsers st)[i :=
          (getUsers st ! i)\<lparr>passwordHash := h, salt := s, tempPassword := tp,
            mustChangePassword := True, updatedAt := Some t\<rparr>]) st)"
    if "findIndex P (getUsers st) = Some i" for P i h s tp t
    by (rule emailsUnique_update [OF assms that]) simp
  from assms show ?thesis
    by (simp add: resetPassword_def resetPassword_body_def try_catch_simps Let_def upd
        split: option.splits)
qed

text \<open>
  Claim C4. When the stored emails are pairwise distinct and lower-cased before a
  call of the authentication service, they are pairwise distinct and lower-cased
  after it. This holds for \<open>register\<close>, \<open>login\<close>, \<open>updateProfile\<close>,
  \<open>changePassword\<close>, \<open>deleteAccount\<close> and \<open>resetPassword\<close>, and for
  \<open>getCurrentUser\<close>, \<open>isLoggedIn\<close> and \<open>logout\<close> as well.
\<close>

theorem email_uniqueness_invariant:
  assumes "emailsUnique st"
  shows "emailsUnique (snd (perform e c st))"
proof (cases c)
  case (Register name email password)
  with register_emailsUnique [OF assms] show ?thesis by (simp add: split_beta)
next
  case (Login email password rem)
  with login_emailsUnique [OF assms] show ?thesis by (simp add: split_beta)
next
  case GetCurrentUser
  obtain cu st1 where cu: "getCurrentUser st = (cu, st1)" by (cases "getCurrentUser st")
  from getCurrentUser_store [OF cu] assms GetCurrentUser cu show ?thesis
    by (cases cu) simp_all
next
  case IsLoggedIn
  obtain cu st1 where cu: "getCurrentUser st = (cu, st1)" by (cases "getCurrentUser st")
  from getCurrentUser_store [OF cu] assms IsLoggedIn cu show ?thesis
    by (simp add: isLoggedIn_def)
next
  case (UpdateProfile profileData)
  with updateProfile_emailsUnique [OF assms] show ?thesis by (simp add: split_beta)
next
  case (ChangePassword currentPassword newPassword)
  with changePassword_emailsUnique [OF assms] show ?thesis by (simp add: split_beta)
next
  case (DeleteAccount password)
  with deleteAccount_emailsUnique [OF assms] show ?thesis by (simp add: split_beta)
next
  case (ResetPassword email)
  with resetPassword_emailsUnique [OF assms] show ?thesis by (simp add: split_beta)
next
  case Logout
  with assms show ?thesis by simp
qed

lemma demoStore_emailsUnique: "emailsUnique demoStore"
  by code_simp

theorem email_uniqueness_invariant_witness:
  "emailsUnique demoStore \<and>
   emailsUnique (snd (perform demoEnv (Register ''Carol'' ''Carol@Example.com'' ''Car0lPass'') demoStore)) \<and>
   emailsUnique (snd (perform demoEnv (DeleteAccount ''Passw0rd'') demoStore))"
  using email_uniqueness_invariant [OF demoStore_emailsUnique, of demoEnv
      "Register ''Carol'' ''Carol@Example.com'' ''Car0lPass''"]
    email_uniqueness_invariant [OF demoStore_emailsUnique, of demoEnv
      "DeleteAccount ''Passw0rd''"]
    demoStore_emailsUnique
  by (simp del: perform.simps)

section \<open>Changing the password\<close>

lemma find_update_distinct:
  "distinct (map f xs) \<Longrightarrow> i < length xs \<Longrightarrow> f y = f (xs ! i) \<Longrightarrow>
     find (\<lambda>v. f v = f (xs ! i)) (xs[i := y]) = Some y"
proof (induction xs arbitrary: i)
  case Nil
  then show ?case by simp
next
  case (Cons x xs)
  show ?case
  proof (cases i)
    case 0
    with Cons.prems show ?thesis by simp
  next
    case (Suc j)
    with Cons.prems have j: "j < length xs" "f y = f (xs ! j)" "distinct (map f xs)"
      by simp_all
    from Cons.prems(1) j(1) have "f x \<noteq> f (xs ! j)"
      by (auto simp: image_iff)
    with Cons.IH [OF j(3) j(1) j(2)] Suc show ?thesis by simp
  qed
qed

lemma changePassword_success:
  assumes "success (fst (changePassword e currentPassword newPassword st))"
    and "getCurrentUser st = (Some cu, st)"
    and "findIndex (\<lambda>u. u_id u = c_id cu) (getUsers st) = Some i"
    and "generateSalt e = Some newSalt"
  shows "\<exists>nh. hashPassword e newPassword newSalt = Some nh \<and>
           snd (changePassword e currentPassword newPassword st) =
             saveUsers ((getUsers st)[i :=
               (getUsers st ! i)\<lparr>passwordHash := nh, salt := newSalt,
                                 updatedAt := Some (nowISO e)\<rparr>]) st"
  using assms
  by (auto simp: changePassword_def changePassword_body_def Let_def try_catch_simps
      success_failure split: option.splits if_splits)

text \<open>
  Claim C2, as amended. After a successful \<open>changePassword\<close> of the logged-in user,
  a later \<open>login\<close> with the old password and an email whose sanitized, lower-cased
  form is that user's stored email returns a failure, provided that the stored emails
  are pairwise distinct and that, under the new salt, the salted hash of the old
  password differs from the salted hash of the new password; this requires the new
  password to differ from the old one. The later call may see another clock; its
  digest is the same function.
\<close>

theorem changePassword_old_password_rejected:
  assumes "success (fst (changePassword e currentPassword newPassword st))"
    and "fst (getCurrentUser st) = Some cu"
    and "distinct (map u_email (getUsers st))"
    and "toLowerCase (sanitizeInput email) = c_email cu"
    and "generateSalt e = Some newSalt"
    and "hashPassword e currentPassword newSalt \<noteq> hashPassword e newPassword newSalt"
    and "digest e' = digest e"
  shows "\<not> success (fst (login e' email currentPassword rem
            (snd (changePassword e currentPassword newPassword st))))"
proof -
  obtain st1 where "getCurrentUser st = (Some cu, st1)"
    using assms(2) by (cases "getCurrentUser st") simp
  from getCurrentUser_Some [OF this] this obtain sess u
    where cu: "getCurrentUser st = (Some cu, st)"
      and u: "find (\<lambda>u. u_id u = userId sess) (getUsers st) = Some u" "cu = publicView u"
      and sess: "getSession st = Some sess"
    by auto
  from u(1) have "u_id u = userId sess" by (auto simp: find_Some_iff)
  with u(2) have cid: "c_id cu = userId sess" by (simp add: publicView_def)
  from find_Some_findIndex [OF u(1)] obtain i
    where i: "findIndex (\<lambda>u. u_id u = c_id cu) (getUsers st) = Some i"
      "i < length (getUsers st)" "getUsers st ! i = u"
    unfolding cid by auto
  from changePassword_success [OF assms(1) cu i(1) assms(5)] obtain nh
    where nh: "hashPassword e newPassword newSalt = Some nh"
      and st': "snd (changePassword e currentPassword newPassword st) =
        saveUsers ((getUsers st)[i :=
          u\<lparr>passwordHash := nh, salt := newSalt, updatedAt := Some (nowISO e)\<rparr>]) st"
    unfolding i(3) by auto
  let ?u' = "u\<lparr>passwordHash := nh, salt := newSalt, updatedAt := Some (nowISO e)\<rparr>"
  have email: "toLowerCase (sanitizeInput email) = u_email (getUsers st ! i)"
    using assms(4) u(2) i(3) by (simp add: publicView_def)
  have "u_email ?u' = u_email (getUsers st ! i)"
    using i(3) by simp
  from find_update_distinct [OF assms(3) i(2) this]
  have found: "find (\<lambda>v. u_email v = toLowerCase (sanitizeInput email))
      (getUsers (snd (changePassword e currentPassword newPassword st))) = Some ?u'"
    by (simp add: st' getUsers_simps email)
  have "hashPassword e' currentPassword newSalt \<noteq> Some nh"
    using assms(6,7) nh by (simp add: hashPassword_def)
  with found show ?thesis
    by (simp add: login_def login_body_def try_catch_simps success_failure
        split: option.splits)
qed

lemma valid_Passw0rd: "isValid (validatePassword ''Passw0rd'')"
  by code_simp

lemma valid_N3wPassword: "isValid (validatePassword ''N3wPassword'')"
  by code_simp

lemma changePassword_same:
  "changePassword demoEnv ''Passw0rd'' ''Passw0rd'' demoStore =
     (succeeded ''Password changed successfully!'',
      saveUsers [alice\<lparr>passwordHash := ''=IDdsF2cdr0wssaP'', salt := ''c2FsdDI='',
                       updatedAt := Some ''2023-11-14T22:13:20.000Z''\<rparr>, bob] demoStore)"
  using valid_Passw0rd
  by (simp add: changePassword_def changePassword_body_def alice_logged_in Let_def
      try_catch_simps publicView_def demo_users hashPassword_def
      generateSalt_def demoEnv_def alice_def)

text \<open>
  The claim as stated fails when the new password is the old password:
  \<open>changePassword\<close> accepts it, and the old password still logs in.
\<close>

theorem changePassword_same_password_counterexample:
  "fst (getCurrentUser demoStore) = Some (publicView alice) \<and>
   success (fst (changePassword demoEnv ''Passw0rd'' ''Passw0rd'' demoStore)) \<and>
   success (fst (login laterEnv ''alice@example.com'' ''Passw0rd'' False
       (snd (changePassword demoEnv ''Passw0rd'' ''Passw0rd'' demoStore))))"
  unfolding changePassword_same alice_logged_in
  by (simp add: success_succeeded login_def login_body_def canon_alice_plain getUsers_simps
      alice_def hashPassword_def laterEnv_def demoEnv_def try_catch_simps Let_def)

lemma changePassword_new:
  "success (fst (changePassword demoEnv ''Passw0rd'' ''N3wPassword'' demoStore))"
  using valid_N3wPassword
  by (simp add: changePassword_def changePassword_body_def alice_logged_in Let_def
      try_catch_simps publicView_def demo_users hashPassword_def
      generateSalt_def demoEnv_def alice_def success_succeeded)

theorem changePassword_old_password_rejected_witness:
  "success (fst (changePassword demoEnv ''Passw0rd'' ''N3wPassword'' demoStore)) \<and>
   fst (getCurrentUser demoStore) = Some (publicView alice) \<and>
   distinct (map u_email (getUsers demoStore)) \<and>
   toLowerCase (sanitizeInput ''alice@example.com'') = c_email (publicView alice) \<and>
   generateSalt demoEnv = Some ''c2FsdDI='' \<and>
   hashPassword demoEnv ''Passw0rd'' ''c2FsdDI='' \<noteq> hashPassword demoEnv ''N3wPassword'' ''c2FsdDI='' \<and>
   digest laterEnv = digest demoEnv \<and>
   \<not> success (fst (login laterEnv ''alice@example.com'' ''Passw0rd'' False
       (snd (changePassword demoEnv ''Passw0rd'' ''N3wPassword'' demoStore))))"
proof -
  have cu: "fst (getCurrentUser demoStore) = Some (publicView alice)"
    by (simp add: alice_logged_in)
  have dist: "distinct (map u_email (getUsers demoStore))"
    by (simp add: getUsers_def demoStore_def alice_def bob_def)
  have canon: "toLowerCase (sanitizeInput ''alice@example.com'') = c_email (publicView alice)"
    by (simp add: canon_alice_plain publicView_def alice_def)
  have slt: "generateSalt demoEnv = Some ''c2FsdDI=''"
    by (simp add: generateSalt_def demoEnv_def)
  have differs: "hashPassword demoEnv ''Passw0rd'' ''c2FsdDI='' \<noteq>
      hashPassword demoEnv ''N3wPassword'' ''c2FsdDI=''"
    by (simp add: hashPassword_def demoEnv_def)
  have same: "digest laterEnv = digest demoEnv"
    by (simp add: laterEnv_def)
  show ?thesis
    using changePassword_old_password_rejected
      [OF changePassword_new cu dist canon slt differs same, of False]
      changePassword_new cu dist canon slt differs same
    by simp
qed

section \<open>Uploading a note\<close>

lemma find_update_first:
  "findIndex P xs = Some i \<Longrightarrow> P y \<Longrightarrow> find P (xs[i := y]) = Some y"
proof (induction xs arbitrary: i)
  case Nil
  then show ?case by simp
next
  case (Cons x xs)
  show ?case
  proof (cases "P x")
    case True
    with Cons.prems show ?thesis by simp
  next
    case False
    with Cons.prems obtain j where j: "findIndex P xs = Some j" "i = Suc j"
      by auto
    from Cons.IH [OF j(1) Cons.prems(2)] False j(2) show ?thesis by simp
  qed
qed

text \<open>
  Claim C6. For a logged-in user and a submission whose file, title, subject,
  semester and note type are all present, the upload handler appends the title to the
  end of that user's lectures list when the note type is \<open>lecture\<close>, and to the end
  of that user's pyqs list when it is \<open>pyq\<close>; the other list stays as it is. The
  user is observed with \<open>getCurrentUser\<close> before and after; a record without a notes
  collection counts as two empty lists.
\<close>

theorem handleUpload_appends_title:
  assumes "fst (getCurrentUser st) = Some cu"
    and "form_file form = Some file"
    and "form_title form = Some ttl" and "ttl \<noteq> []"
    and "truthy (form_subject form)" and "truthy (form_semester form)"
    and "form_noteType form = Some noteType"
  shows "(noteType = ''lecture'' \<longrightarrow>
            fst (getCurrentUser (snd (handleUpload e form st))) =
              Some (cu\<lparr>c_notes := Some \<lparr>lectures = lecturesOf (c_notes cu) @ [ttl],
                                         pyqs = pyqsOf (c_notes cu)\<rparr>\<rparr>)) \<and>
         (noteType = ''pyq'' \<longrightarrow>
            fst (getCurrentUser (snd (handleUpload e form st))) =
              Some (cu\<lparr>c_notes := Some \<lparr>lectures = lecturesOf (c_notes cu),
                                         pyqs = pyqsOf (c_notes cu) @ [ttl]\<rparr>\<rparr>))"
proof -
  from assms(1) obtain sess i
    where cu: "getCurrentUser st = (Some cu, st)" and sess: "getSession st = Some sess"
      and cid: "c_id cu = userId sess"
      and i: "findIndex (\<lambda>u. u_id u = c_id cu) (getUsers st) = Some i"
      and view: "cu = publicView (getUsers st ! i)"
    by (rule logged_in)
  let ?u = "getUsers st ! i"
  let ?n = "pushTitle noteType ttl (case u_notes ?u of None \<Rightarrow> emptyNotes | Some n \<Rightarrow> n)"
  let ?st' = "saveUsers ((getUsers st)[i := ?u\<lparr>u_notes := Some ?n\<rparr>]) st"
  have typed: "noteType \<noteq> []" if "noteType = ''lecture'' \<or> noteType = ''pyq''"
    using that by auto
  have run: "snd (handleUpload e form st) = ?st'"
    if "noteType = ''lecture'' \<or> noteType = ''pyq''"
    using handleUpload_complete [OF cu i assms(2,3,4,5,6,7) typed [OF that], of e] by auto
  from findIndex_Some [OF i] have "u_id ?u = c_id cu" by simp
  then have "u_id (?u\<lparr>u_notes := Some ?n\<rparr>) = c_id cu" by simp
  from find_update_first [OF i, of "?u\<lparr>u_notes := Some ?n\<rparr>", OF this]
  have "find (\<lambda>u. u_id u = userId sess) (getUsers ?st') = Some (?u\<lparr>u_notes := Some ?n\<rparr>)"
    by (simp add: getUsers_simps cid)
  moreover have "getSession ?st' = Some sess"
    using sess by (simp add: getSession_simps)
  ultimately have after: "getCurrentUser ?st' = (Some (publicView (?u\<lparr>u_notes := Some ?n\<rparr>)), ?st')"
    by (rule getCurrentUser_found [rotated])
  have "publicView (?u\<lparr>u_notes := Some ?n\<rparr>) = cu\<lparr>c_notes := Some ?n\<rparr>"
    by (simp add: view publicView_def)
  with after have seen: "fst (getCurrentUser ?st') = Some (cu\<lparr>c_notes := Some ?n\<rparr>)"
    by simp
  have stored: "c_notes cu = u_notes ?u"
    by (simp add: view publicView_def)
  show ?thesis
  proof (intro conjI impI)
    assume lecture: "noteType = ''lecture''"
    then have "?n = \<lparr>lectures = lecturesOf (c_notes cu) @ [ttl], pyqs = pyqsOf (c_notes cu)\<rparr>"
      by (simp add: pushTitle_def stored lecturesOf_def pyqsOf_def emptyNotes_def
          split: option.splits)
    with seen run lecture
    show "fst (getCurrentUser (snd (handleUpload e form st))) =
        Some (cu\<lparr>c_notes := Some \<lparr>lectures = lecturesOf (c_notes cu) @ [ttl],
                                   pyqs = pyqsOf (c_notes cu)\<rparr>\<rparr>)"
      by simp
  next
    assume pyq: "noteType = ''pyq''"
    then have "?n = \<lparr>lectures = lecturesOf (c_notes cu), pyqs = pyqsOf (c_notes cu) @ [ttl]\<rparr>"
      by (simp add: pushTitle_def stored lecturesOf_def pyqsOf_def emptyNotes_def
          split: option.splits)
    with seen run pyq
    show "fst (getCurrentUser (snd (handleUpload e form st))) =
        Some (cu\<lparr>c_notes := Some \<lparr>lectures = lecturesOf (c_notes cu),
                                   pyqs = pyqsOf (c_notes cu) @ [ttl]\<rparr>\<rparr>)"
      by simp
  qed
qed


lemma bob_logged_in_fst: "fst (getCurrentUser bobStore) = Some (publicView bob)"
  by (simp add: getCurrentUser_def getSession_def getUsers_def bobStore_def bobSession_def
      alice_def bob_def)

theorem handleUpload_appends_title_witness:
  "fst (getCurrentUser demoStore) = Some (publicView alice) \<and>
   form_file lectureForm = Some \<lparr>f_name = ''trees.pdf'', f_size = 52431\<rparr> \<and>
   form_title lectureForm = Some ''Trees'' \<and>
   truthy (form_subject lectureForm) \<and> truthy (form_semester lectureForm) \<and>
   form_noteType lectureForm = Some ''lecture'' \<and>
   fst (getCurrentUser (snd (handleUpload demoEnv lectureForm demoStore))) =
     Some ((publicView alice)
       \<lparr>c_notes := Some \<lparr>lectures = [''Graphs'', ''Trees''], pyqs = [''DSA 2022'']\<rparr>\<rparr>) \<and>
   fst (getCurrentUser bobStore) = Some (publicView bob) \<and>
   form_title pyqForm = Some ''DSA 2023'' \<and> form_noteType pyqForm = Some ''pyq'' \<and>
   fst (getCurrentUser (snd (handleUpload demoEnv pyqForm bobStore))) =
     Some ((publicView bob) \<lparr>c_notes := Some \<lparr>lectures = [], pyqs = [''DSA 2023'']\<rparr>\<rparr>)"
proof -
  have lecture: "form_file lectureForm = Some \<lparr>f_name = ''trees.pdf'', f_size = 52431\<rparr>"
    "form_title lectureForm = Some ''Trees''" "''Trees'' \<noteq> []"
    "truthy (form_subject lectureForm)" "truthy (form_semester lectureForm)"
    "form_noteType lectureForm = Some ''lecture''"
    by (simp_all add: lectureForm_def truthy_def)
  have pyq: "form_file pyqForm = Some \<lparr>f_name = ''trees.pdf'', f_size = 52431\<rparr>"
    "form_title pyqForm = Some ''DSA 2023''" "''DSA 2023'' \<noteq> []"
    "truthy (form_subject pyqForm)" "truthy (form_semester pyqForm)"
    "form_noteType pyqForm = Some ''pyq''"
    by (simp_all add: pyqForm_def lectureForm_def truthy_def)
  have views: "lecturesOf (c_notes (publicView alice)) = [''Graphs'']"
    "pyqsOf (c_notes (publicView alice)) = [''DSA 2022'']"
    "lecturesOf (c_notes (publicView bob)) = []" "pyqsOf (c_notes (publicView bob)) = []"
    by (simp_all add: publicView_def alice_def bob_def lecturesOf_def pyqsOf_def)
  show ?thesis
    using handleUpload_appends_title [OF alice_logged_in_fst lecture, of demoEnv]
      handleUpload_appends_title [OF bob_logged_in_fst pyq, of demoEnv]
      alice_logged_in_fst bob_logged_in_fst lecture pyq
    by (simp add: views)
qed

section \<open>Uploading a note of another type\<close>

lemma map_update_same:
  "i < length xs \<Longrightarrow> f y = f (xs ! i) \<Longrightarrow> map f (xs[i := y]) = map f xs"
  by (simp add: map_update list_update_same_conv)

lemma unknown_type_views:
  assumes "noteType \<noteq> ''lecture''" and "noteType \<noteq> ''pyq''"
  shows "lecturesOf (Some (pushTitle noteType ttl
            (case n of None \<Rightarrow> emptyNotes | Some l \<Rightarrow> l))) = lecturesOf n"
    and "pyqsOf (Some (pushTitle noteType ttl
            (case n of None \<Rightarrow> emptyNotes | Some l \<Rightarrow> l))) = pyqsOf n"
  using assms
  by (simp_all add: pushTitle_def lecturesOf_def pyqsOf_def emptyNotes_def split: option.splits)

lemma handleUpload_store:
  assumes "getCurrentUser st = (Some cu, st)"
    and "findIndex (\<lambda>u. u_id u = c_id cu) (getUsers st) = Some i"
    and "form_noteType form = Some noteType"
  shows "snd (handleUpload e form st) = st \<or>
     (\<exists>ttl. snd (handleUpload e form st) =
        saveUsers ((getUsers st)[i := (getUsers st ! i)
          \<lparr>u_notes := Some (pushTitle noteType ttl
             (case u_notes (getUsers st ! i) of None \<Rightarrow> emptyNotes | Some n \<Rightarrow> n))\<rparr>]) st)"
  using assms
  by (auto simp: handleUpload_def Let_def addNoteToUser_logged_in [OF assms(1,2)]
      split: option.splits)

text \<open>
  Claim C10, as amended. For a logged-in user and a submission whose note type is
  present but is neither \<open>lecture\<close> nor \<open>pyq\<close>, the lectures list and the pyqs
  list of every stored user are the same after the upload handler as before. When
  the file, the title, the subject and the semester are present as well, the
  submission passes the required-field check and the success path runs.
\<close>

theorem handleUpload_other_type_dropped:
  assumes "fst (getCurrentUser st) = Some cu"
    and "form_noteType form = Some noteType" and "noteType \<noteq> []"
    and "noteType \<noteq> ''lecture''" and "noteType \<noteq> ''pyq''"
  shows "map (\<lambda>u. lecturesOf (u_notes u)) (getUsers (snd (handleUpload e form st))) =
           map (\<lambda>u. lecturesOf (u_notes u)) (getUsers st) \<and>
         map (\<lambda>u. pyqsOf (u_notes u)) (getUsers (snd (handleUpload e form st))) =
           map (\<lambda>u. pyqsOf (u_notes u)) (getUsers st) \<and>
         (form_file form \<noteq> None \<and> truthy (form_title form) \<and> truthy (form_subject form) \<and>
          truthy (form_semester form) \<longrightarrow>
            (\<exists>noteData. fst (handleUpload e form st) = UploadSuccess noteData))"
proof -
  from assms(1) obtain sess i
    where cu: "getCurrentUser st = (Some cu, st)"
      and i: "findIndex (\<lambda>u. u_id u = c_id cu) (getUsers st) = Some i"
      and len: "i < length (getUsers st)"
    by (rule logged_in)
  let ?u = "getUsers st ! i"
  have same: "map f (getUsers (saveUsers ((getUsers st)[i := ?u\<lparr>u_notes := Some
        (pushTitle noteType ttl (case u_notes ?u of None \<Rightarrow> emptyNotes | Some n \<Rightarrow> n))\<rparr>]) st))
      = map f (getUsers st)"
    if "\<And>n. f (?u\<lparr>u_notes := Some (pushTitle noteType ttl
        (case u_notes ?u of None \<Rightarrow> emptyNotes | Some n \<Rightarrow> n))\<rparr>) = f ?u" for f :: "user \<Rightarrow> string list" and ttl
    using len that by (simp add: getUsers_simps map_update_same)
  have lists: "map (\<lambda>u. lecturesOf (u_notes u)) (getUsers (snd (handleUpload e form st))) =
           map (\<lambda>u. lecturesOf (u_notes u)) (getUsers st) \<and>
         map (\<lambda>u. pyqsOf (u_notes u)) (getUsers (snd (handleUpload e form st))) =
           map (\<lambda>u. pyqsOf (u_notes u)) (getUsers st)"
    using handleUpload_store [OF cu i assms(2), of e]
    by (auto simp: same unknown_type_views [OF assms(4,5)])
  have "\<exists>noteData. fst (handleUpload e form st) = UploadSuccess noteData"
    if "form_file form \<noteq> None" "truthy (form_title form)" "truthy (form_subject form)"
      "truthy (form_semester form)"
  proof -
    from that(1,2) obtain upload ttl
      where "form_file form = Some upload" "form_title form = Some ttl" "ttl \<noteq> []"
      by (auto simp: truthy_def split: option.splits)
    from handleUpload_complete [OF cu i this that(3,4) assms(2,3), of e]
    show ?thesis by auto
  qed
  with lists show ?thesis by blast
qed

lemma assignment_fields:
  "form_noteType assignmentForm = Some ''assignment''" "form_file assignmentForm \<noteq> None"
  "truthy (form_title assignmentForm)" "truthy (form_subject assignmentForm)"
  "truthy (form_semester assignmentForm)"
  by (simp_all add: assignmentForm_def lectureForm_def truthy_def)

theorem handleUpload_other_type_dropped_witness:
  "fst (getCurrentUser demoStore) = Some (publicView alice) \<and>
   form_noteType assignmentForm = Some ''assignment'' \<and>
   form_file assignmentForm \<noteq> None \<and> truthy (form_title assignmentForm) \<and>
   truthy (form_subject assignmentForm) \<and> truthy (form_semester assignmentForm) \<and>
   map (\<lambda>u. lecturesOf (u_notes u)) (getUsers (snd (handleUpload demoEnv assignmentForm demoStore)))
     = [''Graphs''] # [] # [] \<and>
   map (\<lambda>u. pyqsOf (u_notes u)) (getUsers (snd (handleUpload demoEnv assignmentForm demoStore)))
     = [''DSA 2022''] # [] # [] \<and>
   (\<exists>noteData. fst (handleUpload demoEnv assignmentForm demoStore) = UploadSuccess noteData)"
proof -
  have before: "map (\<lambda>u. lecturesOf (u_notes u)) (getUsers demoStore) = [''Graphs''] # [] # []"
    "map (\<lambda>u. pyqsOf (u_notes u)) (getUsers demoStore) = [''DSA 2022''] # [] # []"
    by (simp_all add: getUsers_def demoStore_def alice_def bob_def lecturesOf_def pyqsOf_def)
  have typed: "''assignment'' \<noteq> []" "''assignment'' \<noteq> ''lecture''" "''assignment'' \<noteq> ''pyq''"
    by simp_all
  show ?thesis
    using handleUpload_other_type_dropped
      [OF alice_logged_in_fst assignment_fields(1) typed, of demoEnv]
      alice_logged_in_fst assignment_fields
    by (simp add: before)
qed

text \<open>
  The claim as stated fails when another required field is missing: a submission of
  type \<open>assignment\<close> without a title stops at the required-field check.
\<close>

theorem handleUpload_missing_title_counterexample:
  "fst (getCurrentUser demoStore) = Some (publicView alice) \<and>
   form_noteType untitledForm = Some ''assignment'' \<and>
   fst (handleUpload demoEnv untitledForm demoStore) = AlertRequired"
  by (simp add: handleUpload_def getCurrentUser_def getSession_def getUsers_def demoStore_def
      aliceSession_def alice_def untitledForm_def assignmentForm_def lectureForm_def truthy_def
      publicView_def)

section \<open>What the calls give back\<close>

lemma failure_message: "msg \<noteq> [] \<Longrightarrow> message (failure msg) \<noteq> []"
  by (simp add: failure_def)

lemma validatePassword_message: "v_message (validatePassword p) \<noteq> []"
  by (simp add: validatePassword_def)

lemma try_catch_message:
  assumes "msg \<noteq> []" and "\<And>r st'. body = (Returns r, st') \<Longrightarrow> message r \<noteq> []"
  shows "message (fst (try_catch msg body)) \<noteq> []"
proof (cases body)
  case (Pair out st')
  with assms show ?thesis
    by (cases out) (simp_all add: try_catch_simps success_failure)
qed

lemma register_message: "message (fst (register e name email password st)) \<noteq> []"
  unfolding register_def
  by (rule try_catch_message)
    (auto simp: register_body_def Let_def success_failure success_succeeded
      validatePassword_message split: if_splits option.splits)

lemma login_message: "message (fst (login e email password rem st)) \<noteq> []"
  unfolding login_def
  by (rule try_catch_message)
    (auto simp: login_body_def Let_def success_failure split: if_splits option.splits)

lemma updateProfile_message: "message (fst (updateProfile e profileData st)) \<noteq> []"
  unfolding updateProfile_def
  by (rule try_catch_message)
    (auto simp: updateProfile_body_def Let_def success_failure success_succeeded
      split: if_splits option.splits prod.splits)

lemma changePassword_message:
  "message (fst (changePassword e currentPassword newPassword st)) \<noteq> []"
  unfolding changePassword_def
  by (rule try_catch_message)
    (auto simp: changePassword_body_def Let_def success_failure success_succeeded
      validatePassword_message split: if_splits option.splits prod.splits)

lemma deleteAccount_message: "message (fst (deleteAccount e password st)) \<noteq> []"
  unfolding deleteAccount_def
  by (rule try_catch_message)
    (auto simp: deleteAccount_body_def Let_def success_failure success_succeeded
      split: if_splits option.splits prod.splits)

lemma resetPassword_message: "message (fst (resetPassword e email st)) \<noteq> []"
  unfolding resetPassword_def
  by (rule try_catch_message)
    (auto simp: resetPassword_body_def Let_def success_failure success_succeeded
      split: if_splits option.splits)

lemma loggedInRecord_Some:
  "loggedInRecord st = Some u \<longleftrightarrow>
     (\<exists>sess. getSession st = Some sess \<and>
        find (\<lambda>u. u_id u = userId sess) (getUsers st) = Some u)"
  by (auto simp: loggedInRecord_def split: option.splits)

lemma getCurrentUser_loggedInRecord:
  "fst (getCurrentUser st) = map_option publicView (loggedInRecord st)"
  by (simp add: getCurrentUser_def loggedInRecord_def split: option.splits)

lemma getCurrentUser_cases:
  obtains "fst (getCurrentUser st) = None" "getUsers (snd (getCurrentUser st)) = getUsers st"
  | u where "loggedInRecord st = Some u" "getCurrentUser st = (Some (publicView u), st)"
  by (cases "getSession st"; cases "loggedInRecord st")
    (auto simp: getCurrentUser_def loggedInRecord_def getUsers_simps split: option.splits)

lemma session_user:
  assumes "getSession st = Some sess"
    and "find (\<lambda>u. u_id u = userId sess) (getUsers st) = Some u"
  shows "getCurrentUser st = (Some (publicView u), st)"
    and "\<exists>i. findIndex (\<lambda>v. u_id v = c_id (publicView u)) (getUsers st) = Some i \<and>
           getUsers st ! i = u"
    and "find (\<lambda>v. u_id v = c_id (publicView u)) (getUsers st) = Some u"
proof -
  from assms show "getCurrentUser st = (Some (publicView u), st)"
    by (rule getCurrentUser_found)
  from assms(2) have "u_id u = userId sess" by (auto simp: find_Some_iff)
  then have cid: "c_id (publicView u) = userId sess" by (simp add: publicView_def)
  from assms(2) show "find (\<lambda>v. u_id v = c_id (publicView u)) (getUsers st) = Some u"
    by (simp add: cid)
  from find_Some_findIndex [OF assms(2)]
  show "\<exists>i. findIndex (\<lambda>v. u_id v = c_id (publicView u)) (getUsers st) = Some i \<and>
           getUsers st ! i = u"
    by (auto simp: cid)
qed

lemma register_caught:
  assumes "name \<noteq> []" "email \<noteq> []" "password \<noteq> []"
    and "validateEmail (toLowerCase (sanitizeInput email))"
    and "isValid (validatePassword password)"
    and "\<not> userExists (toLowerCase (sanitizeInput email)) st"
    and "cryptoFails e password"
  shows "register e name email password st =
           (failure ''Registration failed. Please try again.'', st)"
  using assms
  by (auto simp: register_def register_body_def Let_def try_catch_simps cryptoFails_def
      split: option.splits)

lemma login_caught:
  assumes "email \<noteq> []" "password \<noteq> []"
    and "find (\<lambda>u. u_email u = toLowerCase (sanitizeInput email)) (getUsers st) = Some v"
    and "hashPassword e password (salt v) = None"
  shows "login e email password rem st = (failure ''Login failed. Please try again.'', st)"
  using assms by (simp add: login_def login_body_def try_catch_simps)

lemma updateProfile_caught:
  assumes "getSession st = Some sess"
    and "find (\<lambda>u. u_id u = userId sess) (getUsers st) = Some u"
  shows "updateProfile e None st = (failure ''Failed to update profile'', st)"
  using session_user(1,2) [OF assms]
  by (auto simp: updateProfile_def updateProfile_body_def Let_def try_catch_simps)

lemma changePassword_caught:
  assumes "getSession st = Some sess"
    and "find (\<lambda>u. u_id u = userId sess) (getUsers st) = Some u"
    and "hashPassword e currentPassword (salt u) = None \<or>
         (hashPassword e currentPassword (salt u) = Some (passwordHash u) \<and>
          isValid (validatePassword newPassword) \<and> cryptoFails e newPassword)"
  shows "changePassword e currentPassword newPassword st =
           (failure ''Failed to change password'', st)"
  using session_user(1,2) [OF assms(1,2)] assms(3)
  by (auto simp: changePassword_def changePassword_body_def Let_def try_catch_simps
      cryptoFails_def split: option.splits)

lemma deleteAccount_caught:
  assumes "getSession st = Some sess"
    and "find (\<lambda>u. u_id u = userId sess) (getUsers st) = Some u"
    and "hashPassword e password (salt u) = None"
  shows "deleteAccount e password st = (failure ''Failed to delete account'', st)"
  using session_user(1,3) [OF assms(1,2)] assms(3)
  by (simp add: deleteAccount_def deleteAccount_body_def Let_def try_catch_simps)

lemma resetPassword_caught:
  assumes "validateEmail (toLowerCase (sanitizeInput email))"
    and "find (\<lambda>u. u_email u = toLowerCase (sanitizeInput email)) (getUsers st) = Some w"
    and "cryptoFails e (randomTemp e)"
  shows "resetPassword e email st =
           (failure ''Password reset failed. Please try again.'', st)"
  using assms
  by (auto simp: resetPassword_def resetPassword_body_def Let_def try_catch_simps
      cryptoFails_def split: option.splits)

lemma caught_register:
  "name \<noteq> [] \<and> email \<noteq> [] \<and> password \<noteq> [] \<and>
   validateEmail (toLowerCase (sanitizeInput email)) \<and>
   isValid (validatePassword password) \<and>
   \<not> userExists (toLowerCase (sanitizeInput email)) st \<and> cryptoFails e password \<longrightarrow>
     register e name email password st =
       (failure ''Registration failed. Please try again.'', st)"
  using register_caught by blast

lemma caught_login:
  "email \<noteq> [] \<and> password \<noteq> [] \<and>
   find (\<lambda>u. u_email u = toLowerCase (sanitizeInput email)) (getUsers st) = Some v \<and>
   hashPassword e password (salt v) = None \<longrightarrow>
     login e email password rem st = (failure ''Login failed. Please try again.'', st)"
  using login_caught by blast

lemma caught_updateProfile:
  "loggedInRecord st = Some u \<longrightarrow>
     updateProfile e None st = (failure ''Failed to update profile'', st)"
  using updateProfile_caught by (auto simp: loggedInRecord_Some)

lemma caught_changePassword:
  "loggedInRecord st = Some u \<and>
   (hashPassword e currentPassword (salt u) = None \<or>
    hashPassword e currentPassword (salt u) = Some (passwordHash u) \<and>
    isValid (validatePassword newPassword) \<and> cryptoFails e newPassword) \<longrightarrow>
     changePassword e currentPassword newPassword st =
       (failure ''Failed to change password'', st)"
proof (intro impI, elim conjE)
  assume u: "loggedInRecord st = Some u"
    and faults: "hashPassword e currentPassword (salt u) = None \<or>
      hashPassword e currentPassword (salt u) = Some (passwordHash u) \<and>
      isValid (validatePassword newPassword) \<and> cryptoFails e newPassword"
  from u obtain sess where "getSession st = Some sess"
    "find (\<lambda>u. u_id u = userId sess) (getUsers st) = Some u"
    by (auto simp: loggedInRecord_Some)
  from this faults show "changePassword e currentPassword newPassword st =
       (failure ''Failed to change password'', st)"
    by (rule changePassword_caught)
qed

lemma caught_deleteAccount:
  "loggedInRecord st = Some u \<and> hashPassword e password (salt u) = None \<longrightarrow>
     deleteAccount e password st = (failure ''Failed to delete account'', st)"
  using deleteAccount_caught by (auto simp: loggedInRecord_Some)

lemma caught_resetPassword:
  "validateEmail (toLowerCase (sanitizeInput email)) \<and>
   find (\<lambda>u. u_email u = toLowerCase (sanitizeInput email)) (getUsers st) = Some w \<and>
   cryptoFails e (randomTemp e) \<longrightarrow>
     resetPassword e email st = (failure ''Password reset failed. Please try again.'', st)"
  using resetPassword_caught by blast

lemma register_throws_only:
  "fst (register_body e name email password st) = Throws \<longrightarrow>
     name \<noteq> [] \<and> email \<noteq> [] \<and> password \<noteq> [] \<and>
     validateEmail (toLowerCase (sanitizeInput email)) \<and>
     isValid (validatePassword password) \<and>
     \<not> userExists (toLowerCase (sanitizeInput email)) st \<and> cryptoFails e password"
  by (auto simp: register_body_def Let_def cryptoFails_def split: if_splits option.splits)

lemma login_throws_only:
  "fst (login_body e email password rem st) = Throws \<longrightarrow>
     email \<noteq> [] \<and> password \<noteq> [] \<and>
     (\<exists>v. find (\<lambda>u. u_email u = toLowerCase (sanitizeInput email)) (getUsers st) = Some v \<and>
          hashPassword e password (salt v) = None)"
  by (auto simp: login_body_def Let_def split: if_splits option.splits)

lemma updateProfile_throws_only:
  "fst (updateProfile_body e profileData st) = Throws \<longrightarrow>
     profileData = None \<and> loggedInRecord st \<noteq> None"
  by (rule getCurrentUser_cases [of st])
    (auto simp: updateProfile_body_def Let_def split_beta split: option.splits)

lemma changePassword_throws_only:
  "fst (changePassword_body e currentPassword newPassword st) = Throws \<longrightarrow>
     (\<exists>u. loggedInRecord st = Some u \<and>
        (hashPassword e currentPassword (salt u) = None \<or>
         hashPassword e currentPassword (salt u) = Some (passwordHash u) \<and>
         isValid (validatePassword newPassword) \<and> cryptoFails e newPassword))"
proof (rule getCurrentUser_cases [of st])
  assume "fst (getCurrentUser st) = None"
  then show ?thesis
    by (cases "getCurrentUser st") (simp add: changePassword_body_def)
next
  fix u
  assume u: "loggedInRecord st = Some u" "getCurrentUser st = (Some (publicView u), st)"
  from u(1) obtain sess where "getSession st = Some sess"
    "find (\<lambda>u. u_id u = userId sess) (getUsers st) = Some u"
    by (auto simp: loggedInRecord_Some)
  from session_user(2) [OF this] obtain i
    where i: "findIndex (\<lambda>v. u_id v = c_id (publicView u)) (getUsers st) = Some i"
      "getUsers st ! i = u"
    by auto
  show ?thesis
    using u i
    by (auto simp: changePassword_body_def Let_def cryptoFails_def
        split: option.splits if_splits)
qed

lemma deleteAccount_throws_only:
  "fst (deleteAccount_body e password st) = Throws \<longrightarrow>
     (\<exists>u. loggedInRecord st = Some u \<and> hashPassword e password (salt u) = None)"
proof (rule getCurrentUser_cases [of st])
  assume "fst (getCurrentUser st) = None"
  then show ?thesis
    by (cases "getCurrentUser st") (simp add: deleteAccount_body_def)
next
  fix u
  assume u: "loggedInRecord st = Some u" "getCurrentUser st = (Some (publicView u), st)"
  from u(1) obtain sess where "getSession st = Some sess"
    "find (\<lambda>u. u_id u = userId sess) (getUsers st) = Some u"
    by (auto simp: loggedInRecord_Some)
  from session_user(3) [OF this] u show ?thesis
    by (auto simp: deleteAccount_body_def Let_def split: option.splits if_splits)
qed

lemma find_member_id:
  assumes "find P xs = Some w"
  shows "findIndex (\<lambda>v. f v = f w) xs \<noteq> None"
proof -
  from assms have "w \<in> set xs" by (auto simp: find_Some_iff)
  then have "find (\<lambda>v. f v = f w) xs \<noteq> None" by (auto simp: find_None_iff)
  then show ?thesis by (simp add: findIndex_None)
qed

lemma resetPassword_throws_only:
  "fst (resetPassword_body e email st) = Throws \<longrightarrow>
     validateEmail (toLowerCase (sanitizeInput email)) \<and>
     (\<exists>w. find (\<lambda>u. u_email u = toLowerCase (sanitizeInput email)) (getUsers st) = Some w) \<and>
     cryptoFails e (randomTemp e)"
  using find_member_id [of "\<lambda>u. u_email u = toLowerCase (sanitizeInput email)" "getUsers st" _ u_id]
  by (auto simp: resetPassword_body_def Let_def cryptoFails_def split: option.splits if_splits)

text \<open>
  Claim C8, as amended. For \<open>register\<close>, \<open>login\<close>, \<open>updateProfile\<close>,
  \<open>changePassword\<close>, \<open>deleteAccount\<close> and \<open>resetPassword\<close>:
  \<^item> the result always carries a message that is not empty (and a success flag);
  \<^item> each fault inside the operation comes back as the operation's generic failure
    result, with the store as it was: a failing salt or digest call in \<open>register\<close>,
    \<open>login\<close>, \<open>changePassword\<close>, \<open>deleteAccount\<close> and \<open>resetPassword\<close>, a
    missing argument in \<open>updateProfile\<close>;
  \<^item> the \<open>try\<close> block throws in no other case.

  \<open>getCurrentUser\<close> gives back the public view of the logged-in user's record or
  \<open>null\<close>, \<open>isLoggedIn\<close> whether there is such a record, and \<open>logout\<close> nothing;
  none of the three gives back a result object.
\<close>

theorem auth_call_values:
  "message (fst (register e name email password st)) \<noteq> [] \<and>
   message (fst (login e lemail lpassword rem st)) \<noteq> [] \<and>
   message (fst (updateProfile e profileData st)) \<noteq> [] \<and>
   message (fst (changePassword e currentPassword newPassword st)) \<noteq> [] \<and>
   message (fst (deleteAccount e dpassword st)) \<noteq> [] \<and>
   message (fst (resetPassword e remail st)) \<noteq> [] \<and>
   (name \<noteq> [] \<and> email \<noteq> [] \<and> password \<noteq> [] \<and>
    validateEmail (toLowerCase (sanitizeInput email)) \<and>
    isValid (validatePassword password) \<and>
    \<not> userExists (toLowerCase (sanitizeInput email)) st \<and> cryptoFails e password \<longrightarrow>
      register e name email password st =
        (failure ''Registration failed. Please try again.'', st)) \<and>
   (lemail \<noteq> [] \<and> lpassword \<noteq> [] \<and>
    find (\<lambda>u. u_email u = toLowerCase (sanitizeInput lemail)) (getUsers st) = Some v \<and>
    hashPassword e lpassword (salt v) = None \<longrightarrow>
      login e lemail lpassword rem st = (failure ''Login failed. Please try again.'', st)) \<and>
   (loggedInRecord st = Some u \<longrightarrow>
      updateProfile e None st = (failure ''Failed to update profile'', st)) \<and>
   (loggedInRecord st = Some u \<and>
    (hashPassword e currentPassword (salt u) = None \<or>
     hashPassword e currentPassword (salt u) = Some (passwordHash u) \<and>
     isValid (validatePassword newPassword) \<and> cryptoFails e newPassword) \<longrightarrow>
      changePassword e currentPassword newPassword st =
        (failure ''Failed to change password'', st)) \<and>
   (loggedInRecord st = Some u \<and> hashPassword e dpassword (salt u) = None \<longrightarrow>
      deleteAccount e dpassword st = (failure ''Failed to delete account'', st)) \<and>
   (validateEmail (toLowerCase (sanitizeInput remail)) \<and>
    find (\<lambda>u. u_email u = toLowerCase (sanitizeInput remail)) (getUsers st) = Some w \<and>
    cryptoFails e (randomTemp e) \<longrightarrow>
      resetPassword e remail st =
        (failure ''Password reset failed. Please try again.'', st)) \<and>
   (fst (register_body e name email password st) = Throws \<longrightarrow>
      name \<noteq> [] \<and> email \<noteq> [] \<and> password \<noteq> [] \<and>
      validateEmail (toLowerCase (sanitizeInput email)) \<and>
      isValid (validatePassword password) \<and>
      \<not> userExists (toLowerCase (sanitizeInput email)) st \<and> cryptoFails e password) \<and>
   (fst (login_body e lemail lpassword rem st) = Throws \<longrightarrow>
      lemail \<noteq> [] \<and> lpassword \<noteq> [] \<and>
      (\<exists>v. find (\<lambda>u. u_email u = toLowerCase (sanitizeInput lemail)) (getUsers st) = Some v \<and>
           hashPassword e lpassword (salt v) = None)) \<and>
   (fst (updateProfile_body e profileData st) = Throws \<longrightarrow>
      profileData = None \<and> loggedInRecord st \<noteq> None) \<and>
   (fst (changePassword_body e currentPassword newPassword st) = Throws \<longrightarrow>
      (\<exists>u. loggedInRecord st = Some u \<and>
         (hashPassword e currentPassword (salt u) = None \<or>
          hashPassword e currentPassword (salt u) = Some (passwordHash u) \<and>
          isValid (validatePassword newPassword) \<and> cryptoFails e newPassword))) \<and>
   (fst (deleteAccount_body e dpassword st) = Throws \<longrightarrow>
      (\<exists>u. loggedInRecord st = Some u \<and> hashPassword e dpassword (salt u) = None)) \<and>
   (fst (resetPassword_body e remail st) = Throws \<longrightarrow>
      validateEmail (toLowerCase (sanitizeInput remail)) \<and>
      (\<exists>w. find (\<lambda>u. u_email u = toLowerCase (sanitizeInput remail)) (getUsers st) = Some w) \<and>
      cryptoFails e (randomTemp e)) \<and>
   fst (getCurrentUser st) = map_option publicView (loggedInRecord st) \<and>
   fst (isLoggedIn st) = (loggedInRecord st \<noteq> None) \<and>
   \<not> isResult (fst (perform e GetCurrentUser st)) \<and>
   \<not> isResult (fst (perform e IsLoggedIn st)) \<and>
   fst (perform e Logout st) = Undefined"
proof -
  have others: "fst (isLoggedIn st) = (loggedInRecord st \<noteq> None)"
    "\<not> isResult (fst (perform e GetCurrentUser st))"
    "\<not> isResult (fst (perform e IsLoggedIn st))"
    "fst (perform e Logout st) = Undefined"
    using getCurrentUser_loggedInRecord [of st]
    by (cases "getCurrentUser st"; cases "loggedInRecord st"; simp add: isLoggedIn_def)+
  show ?thesis
    by (intro conjI)
      (rule register_message login_message updateProfile_message changePassword_message
        deleteAccount_message resetPassword_message caught_register caught_login
        caught_updateProfile caught_changePassword caught_deleteAccount caught_resetPassword
        register_throws_only login_throws_only updateProfile_throws_only
        changePassword_throws_only deleteAccount_throws_only resetPassword_throws_only
        getCurrentUser_loggedInRecord others)+
qed

lemma canon_carol: "toLowerCase (sanitizeInput ''carol@example.com'') = ''carol@example.com''"
  by code_simp

lemma valid_carol: "validateEmail ''carol@example.com''" "isValid (validatePassword ''Car0lPass'')"
  by code_simp+

lemma valid_alice_plain: "validateEmail ''alice@example.com''"
  by code_simp

lemma no_carol: "\<not> userExists ''carol@example.com'' demoStore"
  by (simp add: userExists_def demo_users alice_def bob_def)

lemma failing_crypto:
  "cryptoFails failingEnv password" "hashPassword failingEnv password s = None"
  by (simp_all add: cryptoFails_def generateSalt_def hashPassword_def failingEnv_def
      demoEnv_def)

lemma alice_by_email:
  "find (\<lambda>u. u_email u = ''alice@example.com'') (getUsers demoStore) = Some alice"
  by (simp add: demo_users alice_def)

lemma alice_record: "loggedInRecord demoStore = Some alice"
  by (simp add: loggedInRecord_def getSession_def demoStore_def getUsers_def aliceSession_def
      alice_def)

lemma alice_index:
  "findIndex (\<lambda>u. u_id u = c_id (publicView alice)) (getUsers demoStore) = Some 0"
  "find (\<lambda>u. u_id u = c_id (publicView alice)) (getUsers demoStore) = Some alice"
  "findIndex (\<lambda>v. u_id v = u_id alice) (getUsers demoStore) = Some 0"
  by (simp_all add: demo_users publicView_def)

lemma bodies_throw:
  "fst (register_body failingEnv ''Carol'' ''carol@example.com'' ''Car0lPass'' demoStore) = Throws"
  "fst (login_body failingEnv ''alice@example.com'' ''Passw0rd'' False demoStore) = Throws"
  "fst (updateProfile_body failingEnv None demoStore) = Throws"
  "fst (changePassword_body failingEnv ''Passw0rd'' ''N3wPassword'' demoStore) = Throws"
  "fst (deleteAccount_body failingEnv ''Passw0rd'' demoStore) = Throws"
  "fst (resetPassword_body failingEnv ''alice@example.com'' demoStore) = Throws"
  using failing_crypto [unfolded cryptoFails_def]
  by (simp_all add: register_body_def login_body_def updateProfile_body_def
      changePassword_body_def deleteAccount_body_def resetPassword_body_def Let_def
      canon_carol valid_carol no_carol canon_alice_plain valid_alice_plain alice_by_email
      alice_logged_in alice_index split: option.splits)

theorem auth_call_values_witness:
  "\<not> userExists (toLowerCase (sanitizeInput ''carol@example.com'')) demoStore \<and>
   cryptoFails failingEnv ''Car0lPass'' \<and>
   fst (register_body failingEnv ''Carol'' ''carol@example.com'' ''Car0lPass'' demoStore) = Throws \<and>
   register failingEnv ''Carol'' ''carol@example.com'' ''Car0lPass'' demoStore =
     (failure ''Registration failed. Please try again.'', demoStore) \<and>
   hashPassword failingEnv ''Passw0rd'' (salt alice) = None \<and>
   fst (login_body failingEnv ''alice@example.com'' ''Passw0rd'' False demoStore) = Throws \<and>
   login failingEnv ''alice@example.com'' ''Passw0rd'' False demoStore =
     (failure ''Login failed. Please try again.'', demoStore) \<and>
   loggedInRecord demoStore = Some alice \<and>
   fst (updateProfile_body failingEnv None demoStore) = Throws \<and>
   updateProfile failingEnv None demoStore = (failure ''Failed to update profile'', demoStore) \<and>
   fst (changePassword_body failingEnv ''Passw0rd'' ''N3wPassword'' demoStore) = Throws \<and>
   changePassword failingEnv ''Passw0rd'' ''N3wPassword'' demoStore =
     (failure ''Failed to change password'', demoStore) \<and>
   fst (deleteAccount_body failingEnv ''Passw0rd'' demoStore) = Throws \<and>
   deleteAccount failingEnv ''Passw0rd'' demoStore =
     (failure ''Failed to delete account'', demoStore) \<and>
   cryptoFails failingEnv (randomTemp failingEnv) \<and>
   fst (resetPassword_body failingEnv ''alice@example.com'' demoStore) = Throws \<and>
   resetPassword failingEnv ''alice@example.com'' demoStore =
     (failure ''Password reset failed. Please try again.'', demoStore) \<and>
   fst (getCurrentUser demoStore) = Some (publicView alice) \<and>
   fst (isLoggedIn demoStore)"
  using auth_call_values [where e = failingEnv and st = demoStore and name = "''Carol''"
      and email = "''carol@example.com''" and password = "''Car0lPass''"
      and lemail = "''alice@example.com''" and lpassword = "''Passw0rd''" and rem = False
      and profileData = None and currentPassword = "''Passw0rd''"
      and newPassword = "''N3wPassword''" and dpassword = "''Passw0rd''"
      and remail = "''alice@example.com''" and u = alice and v = alice and w = alice]
    bodies_throw failing_crypto canon_carol valid_carol no_carol canon_alice_plain
    valid_alice_plain alice_by_email alice_record
  by simp

text \<open>
  The claim as stated fails for \<open>getCurrentUser\<close> and \<open>isLoggedIn\<close>: on an empty
  store they give back \<open>null\<close> and \<open>false\<close>, not a result object.
\<close>

theorem getCurrentUser_value_counterexample:
  "fst (perform demoEnv GetCurrentUser emptyStore) = Null \<and>
   \<not> isResult (fst (perform demoEnv GetCurrentUser emptyStore)) \<and>
   fst (perform demoEnv IsLoggedIn emptyStore) = Boolean False \<and>
   \<not> isResult (fst (perform demoEnv IsLoggedIn emptyStore))"
  by (simp add: getCurrentUser_def isLoggedIn_def getSession_def emptyStore_def)

end
